theory Spec2Isabelle
  imports Complex_Main
begin

section \<open>Exceptions\<close>

text \<open>
  The exceptions that \<^verbatim>\<open>pyccl/nl_pt/power.py\<close> and the NumPy operations it uses can raise.
  A computation that may raise returns \<open>error + 'a\<close>, with \<open>Inl\<close> for the exception.
  \<open>Unmodelled\<close> marks an array of rank three or more, which this development does not
  represent.
\<close>

datatype error =
    ValueError string
  | TypeError string
  | IndexError string
  | AssertionError string
  | NotImplementedError string
  | CCLError int
  | Unmodelled string

definition bindE :: "error + 'a \<Rightarrow> ('a \<Rightarrow> error + 'b) \<Rightarrow> error + 'b" where
  "bindE m f = (case m of Inl e \<Rightarrow> Inl e | Inr x \<Rightarrow> f x)"

section \<open>NumPy arrays of rank at most two\<close>

text \<open>
  Floating-point numbers are idealised as real numbers. An array is a scalar (rank 0), a
  vector (rank 1) or a matrix (rank 2) given with its shape \<open>(rows, columns)\<close> and its rows.
\<close>

datatype ndarray =
    Scalar real
  | Vec "real list"
  | Mat nat nat "real list list"

fun shape :: "ndarray \<Rightarrow> nat list" where
  "shape (Scalar x) = []"
| "shape (Vec xs) = [length xs]"
| "shape (Mat m n rs) = [m, n]"

fun wf_nd :: "ndarray \<Rightarrow> bool" where
  "wf_nd (Scalar x) = True"
| "wf_nd (Vec xs) = True"
| "wf_nd (Mat m n rs) = (length rs = m \<and> list_all (\<lambda>r. length r = n) rs)"

fun ndim :: "ndarray \<Rightarrow> nat" where
  "ndim (Scalar x) = 0"
| "ndim (Vec xs) = 1"
| "ndim (Mat m n rs) = 2"

text \<open>Broadcasting views every operand as a matrix: missing leading axes have extent 1.\<close>

fun nrows :: "ndarray \<Rightarrow> nat" where
  "nrows (Scalar x) = 1"
| "nrows (Vec xs) = 1"
| "nrows (Mat m n rs) = m"

fun ncols :: "ndarray \<Rightarrow> nat" where
  "ncols (Scalar x) = 1"
| "ncols (Vec xs) = length xs"
| "ncols (Mat m n rs) = n"

fun rows_of :: "ndarray \<Rightarrow> real list list" where
  "rows_of (Scalar x) = [[x]]"
| "rows_of (Vec xs) = [xs]"
| "rows_of (Mat m n rs) = rs"

definition at2 :: "ndarray \<Rightarrow> nat \<Rightarrow> nat \<Rightarrow> real" where
  "at2 A i j = rows_of A ! i ! j"

definition at1 :: "ndarray \<Rightarrow> nat \<Rightarrow> real" where
  "at1 A j = at2 A 0 j"

definition vector :: "nat \<Rightarrow> (nat \<Rightarrow> real) \<Rightarrow> ndarray" where
  "vector n f = Vec (map f [0..<n])"

definition grid :: "nat \<Rightarrow> nat \<Rightarrow> (nat \<Rightarrow> nat \<Rightarrow> real) \<Rightarrow> ndarray" where
  "grid m n f = Mat m n (map (\<lambda>i. map (f i) [0..<n]) [0..<m])"

definition tabulate :: "nat \<Rightarrow> nat \<Rightarrow> nat \<Rightarrow> (nat \<Rightarrow> nat \<Rightarrow> real) \<Rightarrow> ndarray" where
  "tabulate r m n f =
     (if r = 0 then Scalar (f 0 0) else if r = 1 then vector n (f 0) else grid m n f)"

text \<open>
  The extent of a broadcast axis: equal extents stay, an extent of 1 stretches to the
  other, anything else is NumPy's ``operands could not be broadcast together''.
\<close>

definition bdim :: "nat \<Rightarrow> nat \<Rightarrow> nat option" where
  "bdim m n = (if m = n then Some m else if m = 1 then Some n else if n = 1 then Some m else None)"

definition pick :: "nat \<Rightarrow> nat \<Rightarrow> nat" where
  "pick d i = (if d = 1 then 0 else i)"

definition broadcast :: "(real \<Rightarrow> real \<Rightarrow> real) \<Rightarrow> ndarray \<Rightarrow> ndarray \<Rightarrow> error + ndarray" where
  "broadcast f A B =
     (case bdim (nrows A) (nrows B) of
        None \<Rightarrow> Inl (ValueError ''operands could not be broadcast together'')
      | Some m \<Rightarrow>
          (case bdim (ncols A) (ncols B) of
             None \<Rightarrow> Inl (ValueError ''operands could not be broadcast together'')
           | Some n \<Rightarrow>
               Inr (tabulate (max (ndim A) (ndim B)) m n
                      (\<lambda>i j. f (at2 A (pick (nrows A) i) (pick (ncols A) j))
                               (at2 B (pick (nrows B) i) (pick (ncols B) j))))))"

definition np_multiply :: "ndarray \<Rightarrow> ndarray \<Rightarrow> error + ndarray" where
  "np_multiply = broadcast (\<lambda>x y. x * y)"

definition np_add :: "ndarray \<Rightarrow> ndarray \<Rightarrow> error + ndarray" where
  "np_add = broadcast (\<lambda>x y. x + y)"

definition np_subtract :: "ndarray \<Rightarrow> ndarray \<Rightarrow> error + ndarray" where
  "np_subtract = broadcast (\<lambda>x y. x - y)"

text \<open>\<^verbatim>\<open>x[None, :]\<close>: a vector of length \<open>n\<close> becomes the single row of a \<open>(1, n)\<close> matrix.\<close>

fun index_None_all :: "ndarray \<Rightarrow> error + ndarray" where
  "index_None_all (Scalar x) = Inl (IndexError ''too many indices for array'')"
| "index_None_all (Vec xs) = Inr (Mat 1 (length xs) [xs])"
| "index_None_all (Mat m n rs) = Inl (Unmodelled ''rank 3'')"

text \<open>\<^verbatim>\<open>x[:, None]\<close>: a vector of length \<open>n\<close> becomes the single column of an \<open>(n, 1)\<close> matrix.\<close>

fun index_all_None :: "ndarray \<Rightarrow> error + ndarray" where
  "index_all_None (Scalar x) = Inl (IndexError ''too many indices for array'')"
| "index_all_None (Vec xs) = Inr (Mat (length xs) 1 (map (\<lambda>x. [x]) xs))"
| "index_all_None (Mat m n rs) = Inl (Unmodelled ''rank 3'')"

text \<open>\<^verbatim>\<open>x.T\<close>: the axes reversed; a scalar and a vector are their own transpose.\<close>

fun transpose_nd :: "ndarray \<Rightarrow> ndarray" where
  "transpose_nd (Scalar x) = Scalar x"
| "transpose_nd (Vec xs) = Vec xs"
| "transpose_nd (Mat m n rs) = grid n m (\<lambda>j i. rs ! i ! j)"

fun map_nd :: "(real \<Rightarrow> real) \<Rightarrow> ndarray \<Rightarrow> ndarray" where
  "map_nd f (Scalar x) = Scalar (f x)"
| "map_nd f (Vec xs) = Vec (map f xs)"
| "map_nd f (Mat m n rs) = Mat m n (map (map f) rs)"

definition np_log :: "ndarray \<Rightarrow> ndarray" where
  "np_log = map_nd ln"

text \<open>\<^verbatim>\<open>x**2\<close>, elementwise.\<close>

definition square :: "ndarray \<Rightarrow> ndarray" where
  "square = map_nd (\<lambda>x. x ^ 2)"

text \<open>
  \<^verbatim>\<open>np.array([...])\<close> of a list of arrays: vectors of one length stack into the rows of a
  matrix, scalars into a vector, and the empty list is the empty vector.
\<close>

fun is_Vec_of :: "nat \<Rightarrow> ndarray \<Rightarrow> bool" where
  "is_Vec_of n (Vec xs) = (length xs = n)"
| "is_Vec_of n A = False"

fun is_Scalar :: "ndarray \<Rightarrow> bool" where
  "is_Scalar (Scalar x) = True"
| "is_Scalar A = False"

fun np_array :: "ndarray list \<Rightarrow> error + ndarray" where
  "np_array [] = Inr (Vec [])"
| "np_array (Scalar x # as) =
     (if list_all is_Scalar as then Inr (Vec (map (\<lambda>A. at2 A 0 0) (Scalar x # as)))
      else Inl (ValueError ''inhomogeneous shape''))"
| "np_array (Vec xs # as) =
     (if list_all (is_Vec_of (length xs)) as
      then Inr (Mat (Suc (length as)) (length xs) (map (\<lambda>A. rows_of A ! 0) (Vec xs # as)))
      else Inl (ValueError ''inhomogeneous shape''))"
| "np_array (Mat m n rs # as) = Inl (Unmodelled ''rank 3'')"

text \<open>\<^verbatim>\<open>np.logspace(start, stop, num)\<close>; a negative number of samples is refused.\<close>

definition np_logspace :: "real \<Rightarrow> real \<Rightarrow> int \<Rightarrow> error + ndarray" where
  "np_logspace start stop num =
     (if num < 0 then Inl (ValueError ''Number of samples must be non-negative'')
      else Inr (vector (nat num)
                  (\<lambda>i. 10 powr (start + real i * ((stop - start) / real (nat num - 1))))))"

text \<open>Python's \<^verbatim>\<open>int(x)\<close> on a float truncates towards zero.\<close>

definition py_int :: "real \<Rightarrow> int" where
  "py_int x = (if 0 \<le> x then \<lfloor>x\<rfloor> else \<lceil>x\<rceil>)"

text \<open>\<^verbatim>\<open>len(x)\<close> of an array is the extent of its first axis; a scalar has none.\<close>

fun len :: "ndarray \<Rightarrow> error + nat" where
  "len (Scalar x) = Inl (TypeError ''len() of unsized object'')"
| "len (Vec xs) = Inr (length xs)"
| "len (Mat m n rs) = Inr m"

subsection \<open>Expressions over arrays\<close>

text \<open>
  Python evaluates the left operand, then the right one, then applies the operator; the
  first exception wins. The operators below work on operands that may already have raised.
\<close>

definition ok :: "ndarray \<Rightarrow> error + ndarray" where
  "ok A = Inr A"

definition lit :: "real \<Rightarrow> error + ndarray" where
  "lit c = Inr (Scalar c)"

definition mulE :: "error + ndarray \<Rightarrow> error + ndarray \<Rightarrow> error + ndarray" where
  "mulE a b = bindE a (\<lambda>x. bindE b (\<lambda>y. np_multiply x y))"

definition addE :: "error + ndarray \<Rightarrow> error + ndarray \<Rightarrow> error + ndarray" where
  "addE a b = bindE a (\<lambda>x. bindE b (\<lambda>y. np_add x y))"

definition subE :: "error + ndarray \<Rightarrow> error + ndarray \<Rightarrow> error + ndarray" where
  "subE a b = bindE a (\<lambda>x. bindE b (\<lambda>y. np_subtract x y))"

definition rowE :: "error + ndarray \<Rightarrow> error + ndarray" where
  "rowE a = bindE a index_None_all"

definition colE :: "error + ndarray \<Rightarrow> error + ndarray" where
  "colE a = bindE a index_all_None"

text \<open>
  \<^verbatim>\<open>bundle[i]\<close> on a cached bundle: \<^verbatim>\<open>None\<close> is not subscriptable, and an index past the
  end of the tuple is an \<^verbatim>\<open>IndexError\<close>.
\<close>

definition item :: "ndarray list option \<Rightarrow> nat \<Rightarrow> error + ndarray" where
  "item bundle i =
     (case bundle of
        None \<Rightarrow> Inl (TypeError ''NoneType object is not subscriptable'')
      | Some xs \<Rightarrow> (if i < length xs then Inr (xs ! i) else Inl (IndexError ''tuple index out of range'')))"

text \<open>\<^verbatim>\<open>a, b, c, d = bundle\<close> and \<^verbatim>\<open>a, b = bundle\<close>.\<close>

definition unpack4 :: "ndarray list option \<Rightarrow> error + (ndarray \<times> ndarray \<times> ndarray \<times> ndarray)" where
  "unpack4 bundle =
     (case bundle of
        None \<Rightarrow> Inl (TypeError ''cannot unpack non-iterable NoneType object'')
      | Some xs \<Rightarrow>
          (case xs of
             [a, b, c, d] \<Rightarrow> Inr (a, b, c, d)
           | _ \<Rightarrow> Inl (ValueError ''wrong number of values to unpack'')))"

definition unpack2 :: "ndarray list option \<Rightarrow> error + (ndarray \<times> ndarray)" where
  "unpack2 bundle =
     (case bundle of
        None \<Rightarrow> Inl (TypeError ''cannot unpack non-iterable NoneType object'')
      | Some xs \<Rightarrow>
          (case xs of
             [a, b] \<Rightarrow> Inr (a, b)
           | _ \<Rightarrow> Inl (ValueError ''wrong number of values to unpack'')))"

section \<open>The calculator\<close>

text \<open>
  The FAST-PT engine is an external collaborator: a calculator holds one as four functions
  from the input spectrum and the window parameters to a tuple of arrays.
\<close>

record fastpt =
  one_loop_dd_bias :: "ndarray \<Rightarrow> ndarray option \<Rightarrow> real \<Rightarrow> ndarray list"
  IA_ta :: "ndarray \<Rightarrow> ndarray option \<Rightarrow> real \<Rightarrow> ndarray list"
  IA_tt :: "ndarray \<Rightarrow> ndarray option \<Rightarrow> real \<Rightarrow> ndarray list"
  IA_mix :: "ndarray \<Rightarrow> ndarray option \<Rightarrow> real \<Rightarrow> ndarray list"

record PTCalculator =
  with_NC :: bool
  with_IA :: bool
  P_window :: "ndarray option"
  C_window :: real
  ks :: ndarray
  pt :: fastpt
  dd_bias :: "ndarray list option"
  ia_ta :: "ndarray list option"
  ia_tt :: "ndarray list option"
  ia_mix :: "ndarray list option"

text \<open>
  What the module imports: whether \<^verbatim>\<open>fastpt\<close> could be imported, and its constructor
  \<^verbatim>\<open>fpt.FASTPT(ks, to_do, low_extrap, high_extrap, n_pad)\<close>.
\<close>

record environment =
  HAVE_FASTPT :: bool
  FASTPT :: "ndarray \<Rightarrow> string list \<Rightarrow> real \<Rightarrow> real \<Rightarrow> real \<Rightarrow> fastpt"

text \<open>\<^verbatim>\<open>PTCalculator.__init__\<close>\<close>

definition PTCalculator_init ::
  "environment \<Rightarrow> bool \<Rightarrow> bool \<Rightarrow> real \<Rightarrow> real \<Rightarrow> real \<Rightarrow> real \<Rightarrow> real \<Rightarrow> real \<Rightarrow>
   ndarray option \<Rightarrow> real \<Rightarrow> error + PTCalculator" where
  "PTCalculator_init env with_NC' with_IA' log10k_min log10k_max nk_per_decade
       pad_factor low_extrap high_extrap P_window' C_window' =
     (if \<not> HAVE_FASTPT env
      then Inl (AssertionError
        ''You must have the `FASTPT` python package installed to use CCL to get PT observables!'')
      else
        let to_do = [''one_loop_dd''] @ (if with_NC' then [''dd_bias''] else [])
                      @ (if with_IA' then [''IA''] else []);
            nk_total = py_int ((log10k_max - log10k_min) * nk_per_decade)
        in bindE (np_logspace log10k_min log10k_max nk_total) (\<lambda>ks'.
           bindE (len ks') (\<lambda>n.
             let n_pad = pad_factor * real n
             in Inr \<lparr> with_NC = with_NC', with_IA = with_IA',
                      P_window = P_window', C_window = C_window',
                      ks = ks',
                      pt = FASTPT env ks' to_do low_extrap high_extrap n_pad,
                      dd_bias = None, ia_ta = None, ia_tt = None, ia_mix = None \<rparr>)))"

text \<open>\<^verbatim>\<open>PTCalculator()\<close>: the constructor with its default arguments.\<close>

definition PTCalculator_default :: "environment \<Rightarrow> error + PTCalculator" where
  "PTCalculator_default env =
     PTCalculator_init env True True (- 4) 2 20 1 (- 5) 3 None 0.75"

text \<open>\<^verbatim>\<open>PTCalculator._get_dd_bias\<close>\<close>

definition get_dd_bias :: "PTCalculator \<Rightarrow> ndarray \<Rightarrow> PTCalculator" where
  "get_dd_bias self pk =
     self\<lparr> dd_bias := Some (one_loop_dd_bias (pt self) pk (P_window self) (C_window self)) \<rparr>"

text \<open>\<^verbatim>\<open>PTCalculator._get_ia_bias\<close>\<close>

definition get_ia_bias :: "PTCalculator \<Rightarrow> ndarray \<Rightarrow> PTCalculator" where
  "get_ia_bias self pk =
     self\<lparr> ia_ta := Some (IA_ta (pt self) pk (P_window self) (C_window self)),
           ia_tt := Some (IA_tt (pt self) pk (P_window self) (C_window self)),
           ia_mix := Some (IA_mix (pt self) pk (P_window self) (C_window self)) \<rparr>"

text \<open>
  \<^verbatim>\<open>PTCalculator.update_pk\<close>: the method mutates the calculator, so the model returns the
  calculator as it is after the call, next to the result.
\<close>

definition update_pk :: "PTCalculator \<Rightarrow> ndarray \<Rightarrow> (error + unit) \<times> PTCalculator" where
  "update_pk self pk =
     (if shape pk \<noteq> shape (ks self)
      then (Inl (ValueError ''Input spectrum has wrong shape''), self)
      else
        let self1 = (if with_NC self then get_dd_bias self pk else self);
            self2 = (if with_IA self1 then get_ia_bias self1 pk else self1)
        in (Inr (), self2))"

subsection \<open>The combination formulas\<close>

text \<open>\<^verbatim>\<open>PTCalculator.get_pgg\<close> (number counts with number counts).\<close>

definition get_pgg ::
  "PTCalculator \<Rightarrow> ndarray \<Rightarrow> ndarray \<Rightarrow> ndarray \<Rightarrow> ndarray \<Rightarrow> ndarray \<Rightarrow>
   ndarray \<Rightarrow> ndarray \<Rightarrow> ndarray \<Rightarrow> bool \<Rightarrow> error + ndarray" where
  "get_pgg self Pd1d1 g4 b11 b21 bs1 b12 b22 bs2 sub_lowk =
     bindE (mulE (rowE (ok g4)) (colE (item (dd_bias self) 2))) (\<lambda>Pd1d2.
     bindE (mulE (rowE (ok g4)) (colE (item (dd_bias self) 3))) (\<lambda>Pd2d2.
     bindE (mulE (rowE (ok g4)) (colE (item (dd_bias self) 4))) (\<lambda>Pd1s2.
     bindE (mulE (rowE (ok g4)) (colE (item (dd_bias self) 5))) (\<lambda>Pd2s2.
     bindE (mulE (rowE (ok g4)) (colE (item (dd_bias self) 6))) (\<lambda>Ps2s2.
     bindE (if sub_lowk
            then bindE (mulE (ok g4) (item (dd_bias self) 7)) (\<lambda>s4. rowE (ok s4))
            else lit 0) (\<lambda>s4.
       addE (addE (addE (addE (addE
         (mulE (rowE (mulE (ok b11) (ok b12))) (ok Pd1d1))
         (mulE (mulE (lit 0.5) (rowE (addE (mulE (ok b11) (ok b22)) (mulE (ok b12) (ok b21)))))
               (ok Pd1d2)))
         (mulE (mulE (lit 0.25) (rowE (mulE (ok b21) (ok b22))))
               (subE (ok Pd2d2) (mulE (lit 2) (ok s4)))))
         (mulE (mulE (lit 0.5) (rowE (addE (mulE (ok b11) (ok bs2)) (mulE (ok b12) (ok bs1)))))
               (ok Pd1s2)))
         (mulE (mulE (lit 0.25) (rowE (addE (mulE (ok b21) (ok bs2)) (mulE (ok b22) (ok bs1)))))
               (subE (ok Pd2s2) (mulE (lit (4 / 3)) (ok s4)))))
         (mulE (mulE (lit 0.25) (rowE (mulE (ok bs1) (ok bs2))))
               (subE (ok Ps2s2) (mulE (lit (8 / 9)) (ok s4))))))))))"

text \<open>\<^verbatim>\<open>PTCalculator.get_pgm\<close> (number counts with matter).\<close>

definition get_pgm ::
  "PTCalculator \<Rightarrow> ndarray \<Rightarrow> ndarray \<Rightarrow> ndarray \<Rightarrow> ndarray \<Rightarrow> ndarray \<Rightarrow> error + ndarray" where
  "get_pgm self Pd1d1 g4 b1 b2 bs =
     bindE (mulE (rowE (ok g4)) (colE (item (dd_bias self) 2))) (\<lambda>Pd1d2.
     bindE (mulE (rowE (ok g4)) (colE (item (dd_bias self) 4))) (\<lambda>Pd1s2.
       addE (addE
         (mulE (rowE (ok b1)) (ok Pd1d1))
         (mulE (mulE (lit 0.5) (rowE (ok b2))) (ok Pd1d2)))
         (mulE (mulE (lit 0.5) (rowE (ok bs))) (ok Pd1s2))))"

text \<open>\<^verbatim>\<open>PTCalculator.get_pim\<close> (intrinsic alignments with matter).\<close>

definition get_pim ::
  "PTCalculator \<Rightarrow> ndarray \<Rightarrow> ndarray \<Rightarrow> ndarray \<Rightarrow> ndarray \<Rightarrow> ndarray \<Rightarrow> error + ndarray" where
  "get_pim self Pd1d1 g4 c1 c2 cd =
     bindE (unpack4 (ia_ta self)) (\<lambda>(a00e, c00e, a0e0e, a0b0b).
     bindE (unpack4 (ia_mix self)) (\<lambda>(a0e2, b0e2, d0ee2, d0bb2).
       addE (addE
         (mulE (rowE (ok c1)) (ok Pd1d1))
         (mulE (rowE (mulE (ok g4) (ok cd))) (colE (addE (ok a00e) (ok c00e)))))
         (mulE (rowE (mulE (ok g4) (ok c2))) (colE (addE (ok a0e2) (ok b0e2))))))"

subsection \<open>Observable effects\<close>

text \<open>
  The calls a run makes to its collaborators and the warnings it issues, in order:
  \<open>Warning\<close> is a call of \<^verbatim>\<open>warnings.warn\<close>, \<open>Call_bias n name\<close> the evaluation of the
  bias function \<open>name\<close> of tracer \<open>n\<close>.
\<close>

datatype event =
    Warning string
  | Call_linear_matter_power real
  | Call_nonlin_matter_power real
  | Call_growth_factor
  | Call_bias nat string

text \<open>A program over a state \<open>'s\<close> returns a value or raises, and leaves a state behind.\<close>

type_synonym ('s, 'a) prog = "'s \<Rightarrow> (error + 'a) \<times> 's"

definition returnS :: "'a \<Rightarrow> ('s, 'a) prog" where
  "returnS x = (\<lambda>s. (Inr x, s))"

definition raiseS :: "error \<Rightarrow> ('s, 'a) prog" where
  "raiseS e = (\<lambda>s. (Inl e, s))"

definition liftE :: "error + 'a \<Rightarrow> ('s, 'a) prog" where
  "liftE r = (\<lambda>s. (r, s))"

definition bindS :: "('s, 'a) prog \<Rightarrow> ('a \<Rightarrow> ('s, 'b) prog) \<Rightarrow> ('s, 'b) prog" where
  "bindS m f = (\<lambda>s. case m s of (Inl e, s') \<Rightarrow> (Inl e, s') | (Inr x, s') \<Rightarrow> f x s')"

fun mapS :: "('a \<Rightarrow> ('s, 'b) prog) \<Rightarrow> 'a list \<Rightarrow> ('s, 'b list) prog" where
  "mapS f [] = returnS []"
| "mapS f (x # xs) = bindS (f x) (\<lambda>y. bindS (mapS f xs) (\<lambda>ys. returnS (y # ys)))"

definition emit :: "event \<Rightarrow> (event list, unit) prog" where
  "emit ev = (\<lambda>tr. (Inr (), tr @ [ev]))"

text \<open>
  \<^verbatim>\<open>PTCalculator.get_pgi\<close> (number counts with intrinsic alignments). The method calls
  \<^verbatim>\<open>warnings.warn\<close> with the text below before anything else. Which of the issued
  warnings the user sees is decided by Python's warning filters, see \<open>default_filter\<close>.
\<close>

definition pgi_warning :: string where
  "pgi_warning =
     ''The full non-linear model for the cross-correlation ''
     @ ''between number counts and intrinsic alignments is ''
     @ ''still work in progress in FastPT. As a workaround ''
     @ ''CCL assumes a non-linear treatment of IAs, but only ''
     @ ''linearly biased number counts.''"

definition get_pgi ::
  "PTCalculator \<Rightarrow> ndarray \<Rightarrow> ndarray \<Rightarrow> ndarray \<Rightarrow> ndarray \<Rightarrow> ndarray \<Rightarrow>
   ndarray \<Rightarrow> ndarray \<Rightarrow> ndarray \<Rightarrow> (event list, ndarray) prog" where
  "get_pgi self Pd1d1 g4 b1 b2 bs c1 c2 cd =
     bindS (emit (Warning pgi_warning)) (\<lambda>_.
     liftE (
       bindE (unpack4 (ia_ta self)) (\<lambda>(a00e, c00e, a0e0e, a0b0b).
       bindE (unpack4 (ia_mix self)) (\<lambda>(a0e2, b0e2, d0ee2, d0bb2).
         mulE (rowE (ok b1))
           (addE (addE
             (mulE (rowE (ok c1)) (ok Pd1d1))
             (mulE (rowE (mulE (ok g4) (ok cd))) (colE (addE (ok a00e) (ok c00e)))))
             (mulE (rowE (mulE (ok g4) (ok c2))) (colE (addE (ok a0e2) (ok b0e2)))))))))"

text \<open>\<^verbatim>\<open>PTCalculator.get_pii\<close> (intrinsic alignments with intrinsic alignments).\<close>

definition get_pii ::
  "PTCalculator \<Rightarrow> ndarray \<Rightarrow> ndarray \<Rightarrow> ndarray \<Rightarrow> ndarray \<Rightarrow> ndarray \<Rightarrow>
   ndarray \<Rightarrow> ndarray \<Rightarrow> ndarray \<Rightarrow> bool \<Rightarrow> error + ndarray" where
  "get_pii self Pd1d1 g4 c11 c21 cd1 c12 c22 cd2 return_bb =
     bindE (unpack4 (ia_ta self)) (\<lambda>(a00e, c00e, a0e0e, a0b0b).
     bindE (unpack2 (ia_tt self)) (\<lambda>(ae2e2, ab2b2).
     bindE (unpack4 (ia_mix self)) (\<lambda>(a0e2, b0e2, d0ee2, d0bb2).
       if return_bb
       then
         addE (addE
           (mulE (rowE (mulE (ok cd1) (ok cd2))) (colE (ok a0b0b)))
           (mulE (rowE (mulE (mulE (ok cd1) (ok c22)) (ok g4))) (colE (ok ab2b2))))
           (mulE (rowE (mulE (addE (mulE (ok cd1) (ok c22)) (mulE (ok cd1) (ok c21))) (ok g4)))
                 (colE (ok d0bb2)))
       else
         addE (addE (addE (addE (addE
           (mulE (rowE (mulE (mulE (ok c11) (ok c12)) (ok g4))) (ok Pd1d1))
           (mulE (rowE (mulE (addE (mulE (ok c11) (ok cd2)) (mulE (ok c12) (ok cd1))) (ok g4)))
                 (colE (addE (ok a00e) (ok c00e)))))
           (mulE (rowE (mulE (mulE (ok cd1) (ok cd2)) (ok g4))) (colE (ok a0e0e))))
           (mulE (rowE (mulE (mulE (ok c21) (ok c22)) (ok g4))) (colE (ok ae2e2))))
           (mulE (rowE (mulE (addE (mulE (ok c11) (ok c22)) (mulE (ok c21) (ok c12))) (ok g4)))
                 (colE (addE (ok a0e2) (ok b0e2)))))
           (mulE (rowE (mulE (addE (mulE (ok cd1) (ok c22)) (mulE (ok cd2) (ok c21))) (ok g4)))
                 (colE (ok d0ee2))))))"

section \<open>The orchestrator\<close>

text \<open>
  A tracer exposes its type tag and its bias functions of redshift by name
  (\<^verbatim>\<open>tracer.b1\<close> is \<open>bias tracer ''b1''\<close>); the tracer classes are not part of
  \<^verbatim>\<open>power.py\<close>, and every tracer is given a function for every name. An argument
  that must pass an \<^verbatim>\<open>isinstance\<close> test is an \<open>Instance\<close> of the class or is not.
\<close>

record PTTracer =
  type :: string
  bias :: "string \<Rightarrow> ndarray \<Rightarrow> ndarray"

datatype 'a pyobj = Instance 'a | NotInstance

text \<open>
  The functions the module imports from the rest of the library, over a cosmology \<open>'c\<close>:
  \<^verbatim>\<open>lib.get_pk_spline_na\<close>, \<^verbatim>\<open>lib.get_pk_spline_a\<close> (the samples and a status),
  \<^verbatim>\<open>check\<close> (which may raise on a status), the matter power spectra and the growth
  factor. The spectra, the growth factor, the bias functions and the engine are total
  functions here: an exception raised inside one of them is not modelled.
\<close>

record 'c library =
  get_pk_spline_na :: "'c \<Rightarrow> int"
  get_pk_spline_a :: "'c \<Rightarrow> int \<Rightarrow> int \<Rightarrow> real list \<times> int"
  check :: "int \<Rightarrow> error + unit"
  linear_matter_power :: "'c \<Rightarrow> ndarray \<Rightarrow> real \<Rightarrow> ndarray"
  nonlin_matter_power :: "'c \<Rightarrow> ndarray \<Rightarrow> real \<Rightarrow> ndarray"
  growth_factor :: "'c \<Rightarrow> real list \<Rightarrow> ndarray"

text \<open>
  The keyword arguments of the call \<^verbatim>\<open>Pk2D(a_arr=..., lk_arr=..., pk_arr=..., is_logp=...)\<close>
  that builds the output interpolant. An extrapolation order is \<open>None\<close> when the call
  does not pass it and the constructor's own default applies.
\<close>

record Pk2D =
  pk2d_a_arr :: "real list"
  pk2d_lk_arr :: ndarray
  pk2d_pk_arr :: ndarray
  pk2d_is_logp :: bool
  pk2d_extrap_order_lok :: "int option"
  pk2d_extrap_order_hik :: "int option"

text \<open>The state of a run: the calculator object and the trace of effects so far.\<close>

record world =
  calc :: PTCalculator
  trace :: "event list"

definition on_trace :: "(event list, 'a) prog \<Rightarrow> (world, 'a) prog" where
  "on_trace m = (\<lambda>w. case m (trace w) of (r, tr) \<Rightarrow> (r, w\<lparr> trace := tr \<rparr>))"

definition on_calc :: "(PTCalculator \<Rightarrow> (error + 'a) \<times> PTCalculator) \<Rightarrow> (world, 'a) prog" where
  "on_calc m = (\<lambda>w. case m (calc w) of (r, c) \<Rightarrow> (r, w\<lparr> calc := c \<rparr>))"

definition get_calc :: "(world, PTCalculator) prog" where
  "get_calc = (\<lambda>w. (Inr (calc w), w))"

definition call_bias :: "nat \<Rightarrow> PTTracer \<Rightarrow> string \<Rightarrow> ndarray \<Rightarrow> (world, ndarray) prog" where
  "call_bias n tracer name z_arr =
     bindS (on_trace (emit (Call_bias n name))) (\<lambda>_. returnS (bias tracer name z_arr))"

text \<open>
  \<^verbatim>\<open>get_pt_pk2d\<close>, lines 401 to 426: the defaults of \<^verbatim>\<open>a_arr\<close>, \<^verbatim>\<open>tracer2\<close> and
  \<^verbatim>\<open>ptc\<close>, the \<^verbatim>\<open>isinstance\<close> tests and the test of the calculator's flags. Nothing
  here touches a calculator that was passed in.
\<close>

definition need_NC :: string where
  "need_NC = ''Need number counts bias, but workspace didn't compute it''"

definition need_IA :: string where
  "need_IA = ''Need intrinsic alignment bias, but workspace didn't compute it''"

definition get_pt_pk2d_arguments ::
  "environment \<Rightarrow> 'c library \<Rightarrow> 'c \<Rightarrow> PTTracer pyobj \<Rightarrow> PTCalculator pyobj option \<Rightarrow>
   PTTracer pyobj option \<Rightarrow> real list option \<Rightarrow>
   error + (real list \<times> PTTracer \<times> PTTracer \<times> PTCalculator)" where
  "get_pt_pk2d_arguments env lib cosmo tracer1 ptc tracer2 a_arr =
     bindE (case a_arr of
              None \<Rightarrow>
                (let status = 0;
                     na = get_pk_spline_na lib cosmo;
                     (a_arr', status) = get_pk_spline_a lib cosmo na status
                 in bindE (check lib status) (\<lambda>_. Inr a_arr'))
            | Some a_arr' \<Rightarrow> Inr a_arr') (\<lambda>a_arr.
     let tracer2 = (case tracer2 of None \<Rightarrow> tracer1 | Some t \<Rightarrow> t) in
     case tracer1 of
       NotInstance \<Rightarrow> Inl (TypeError ''tracer1 must be of type `PTTracer`'')
     | Instance tracer1 \<Rightarrow>
     case tracer2 of
       NotInstance \<Rightarrow> Inl (TypeError ''tracer2 must be of type `PTTracer`'')
     | Instance tracer2 \<Rightarrow>
     bindE (case ptc of
              None \<Rightarrow> bindE (PTCalculator_default env) (\<lambda>c. Inr (Instance c))
            | Some p \<Rightarrow> Inr p) (\<lambda>ptc.
     case ptc of
       NotInstance \<Rightarrow> Inl (TypeError ''ptc should be of type `PTCalculator`'')
     | Instance ptc \<Rightarrow>
     bindE (if type tracer1 = ''NC'' \<or> type tracer2 = ''NC''
            then (if \<not> with_NC ptc then Inl (ValueError need_NC) else Inr ())
            else Inr ()) (\<lambda>_.
     bindE (if type tracer1 = ''IA'' \<or> type tracer2 = ''IA''
            then (if \<not> with_IA ptc then Inl (ValueError need_IA) else Inr ())
            else Inr ()) (\<lambda>_.
     Inr (a_arr, tracer1, tracer2, ptc)))))"

text \<open>
  \<^verbatim>\<open>get_pt_pk2d\<close>, lines 453 to 523: the dispatch on the pair of tracer types. Each
  evaluation of a bias function is recorded with the tracer it belongs to.
\<close>

definition not_implemented :: "PTTracer \<Rightarrow> PTTracer \<Rightarrow> error" where
  "not_implemented tracer1 tracer2 =
     NotImplementedError (''Combination '' @ type tracer1 @ ''-'' @ type tracer2
                          @ '' not implemented yet'')"

definition get_pt_pk2d_dispatch ::
  "PTTracer \<Rightarrow> PTTracer \<Rightarrow> bool \<Rightarrow> bool \<Rightarrow> ndarray \<Rightarrow> ndarray \<Rightarrow> ndarray \<Rightarrow>
   (world, ndarray) prog" where
  "get_pt_pk2d_dispatch tracer1 tracer2 sub_lowk return_ia_bb z_arr ga4 Pd1d1 =
     (if type tracer1 = ''NC'' then
        bindS (call_bias 1 tracer1 ''b1'' z_arr) (\<lambda>b11.
        bindS (call_bias 1 tracer1 ''b2'' z_arr) (\<lambda>b21.
        bindS (call_bias 1 tracer1 ''b2'' z_arr) (\<lambda>bs1.
          if type tracer2 = ''NC'' then
            bindS (call_bias 2 tracer2 ''b1'' z_arr) (\<lambda>b12.
            bindS (call_bias 2 tracer2 ''b2'' z_arr) (\<lambda>b22.
            bindS (call_bias 2 tracer2 ''b2'' z_arr) (\<lambda>bs2.
            bindS get_calc (\<lambda>ptc.
              liftE (get_pgg ptc Pd1d1 ga4 b11 b21 bs1 b12 b22 bs2 sub_lowk)))))
          else if type tracer2 = ''IA'' then
            bindS (call_bias 2 tracer2 ''c1'' z_arr) (\<lambda>c12.
            bindS (call_bias 2 tracer2 ''c2'' z_arr) (\<lambda>c22.
            bindS (call_bias 2 tracer2 ''cdelta'' z_arr) (\<lambda>cd2.
            bindS get_calc (\<lambda>ptc.
              on_trace (get_pgi ptc Pd1d1 ga4 b11 b21 bs1 c12 c22 cd2)))))
          else if type tracer2 = ''M'' then
            bindS get_calc (\<lambda>ptc.
              liftE (get_pgm ptc Pd1d1 ga4 b11 b21 bs1))
          else raiseS (not_implemented tracer1 tracer2))))
      else if type tracer1 = ''IA'' then
        bindS (call_bias 1 tracer1 ''c1'' z_arr) (\<lambda>c11.
        bindS (call_bias 1 tracer1 ''c2'' z_arr) (\<lambda>c21.
        bindS (call_bias 1 tracer1 ''cdelta'' z_arr) (\<lambda>cd1.
          if type tracer2 = ''IA'' then
            bindS (call_bias 2 tracer2 ''c1'' z_arr) (\<lambda>c12.
            bindS (call_bias 2 tracer2 ''c2'' z_arr) (\<lambda>c22.
            bindS (call_bias 2 tracer2 ''cdelta'' z_arr) (\<lambda>cd2.
            bindS get_calc (\<lambda>ptc.
              liftE (get_pii ptc Pd1d1 ga4 c11 c21 cd1 c12 c22 cd2 return_ia_bb)))))
          else if type tracer2 = ''NC'' then
            bindS (call_bias 2 tracer2 ''b1'' z_arr) (\<lambda>b12.
            bindS (call_bias 2 tracer2 ''b2'' z_arr) (\<lambda>b22.
            bindS (call_bias 2 tracer2 ''b2'' z_arr) (\<lambda>bs2.
            bindS get_calc (\<lambda>ptc.
              on_trace (get_pgi ptc Pd1d1 ga4 b12 b22 bs2 c11 c21 cd1)))))
          else if type tracer2 = ''M'' then
            bindS get_calc (\<lambda>ptc.
              liftE (get_pim ptc Pd1d1 ga4 c11 c21 cd1))
          else raiseS (not_implemented tracer1 tracer2))))
      else if type tracer1 = ''M'' then
        (if type tracer2 = ''NC'' then
           bindS (call_bias 2 tracer2 ''b1'' z_arr) (\<lambda>b12.
           bindS (call_bias 2 tracer2 ''b2'' z_arr) (\<lambda>b22.
           bindS (call_bias 2 tracer2 ''b2'' z_arr) (\<lambda>bs2.
           bindS get_calc (\<lambda>ptc.
             liftE (get_pgm ptc Pd1d1 ga4 b12 b22 bs2)))))
         else if type tracer2 = ''IA'' then
           bindS (call_bias 2 tracer2 ''c1'' z_arr) (\<lambda>c12.
           bindS (call_bias 2 tracer2 ''c2'' z_arr) (\<lambda>c22.
           bindS (call_bias 2 tracer2 ''cdelta'' z_arr) (\<lambda>cd2.
           bindS get_calc (\<lambda>ptc.
             liftE (get_pim ptc Pd1d1 ga4 c12 c22 cd2)))))
         else if type tracer2 = ''M'' then
           returnS Pd1d1
         else raiseS (not_implemented tracer1 tracer2))
      else raiseS (not_implemented tracer1 tracer2))"

text \<open>
  \<^verbatim>\<open>get_pt_pk2d\<close>, lines 428 to 451 and 540 to 545: the redshifts, the refresh of the
  calculator, the growth factor, the matter power spectrum \<^verbatim>\<open>Pd1d1\<close>, the dispatch and the
  call of \<^verbatim>\<open>Pk2D\<close>. The division \<^verbatim>\<open>1. / a_arr\<close> is that of the real numbers, where
  \<open>1 / 0 = 0\<close>.
\<close>

definition get_pt_pk2d_body ::
  "'c library \<Rightarrow> 'c \<Rightarrow> PTTracer \<Rightarrow> PTTracer \<Rightarrow> bool \<Rightarrow> bool \<Rightarrow> real list \<Rightarrow>
   int \<Rightarrow> int \<Rightarrow> bool \<Rightarrow> (world, Pk2D) prog" where
  "get_pt_pk2d_body lib cosmo tracer1 tracer2 sub_lowk use_nonlin a_arr
       extrap_order_lok extrap_order_hik return_ia_bb =
     (let z_arr = Vec (map (\<lambda>a. 1 / a - 1) a_arr) in
      bindS get_calc (\<lambda>ptc.
      bindS (on_trace (emit (Call_linear_matter_power 1))) (\<lambda>_.
      let pk_lin_z0 = linear_matter_power lib cosmo (ks ptc) 1 in
      bindS (on_calc (\<lambda>ptc. update_pk ptc pk_lin_z0)) (\<lambda>_.
      bindS (on_trace (emit Call_growth_factor)) (\<lambda>_.
      let ga = growth_factor lib cosmo a_arr;
          ga2 = square ga;
          ga4 = square ga2
      in
      bindS (if use_nonlin
             then bindS (mapS (\<lambda>a. bindS get_calc (\<lambda>ptc.
                                    bindS (on_trace (emit (Call_nonlin_matter_power a))) (\<lambda>_.
                                    returnS (nonlin_matter_power lib cosmo (ks ptc) a)))) a_arr)
                    (\<lambda>rows. liftE (bindE (np_array rows) (\<lambda>A. Inr (transpose_nd A))))
             else bindS (mapS (\<lambda>a. bindS get_calc (\<lambda>ptc.
                                    bindS (on_trace (emit (Call_linear_matter_power a))) (\<lambda>_.
                                    returnS (linear_matter_power lib cosmo (ks ptc) a)))) a_arr)
                    (\<lambda>rows. liftE (bindE (np_array rows) (\<lambda>A. Inr (transpose_nd A)))))
        (\<lambda>Pd1d1.
      bindS (get_pt_pk2d_dispatch tracer1 tracer2 sub_lowk return_ia_bb z_arr ga4 Pd1d1) (\<lambda>p_pt.
      bindS get_calc (\<lambda>ptc.
      returnS \<lparr> pk2d_a_arr = a_arr,
                pk2d_lk_arr = np_log (ks ptc),
                pk2d_pk_arr = transpose_nd p_pt,
                pk2d_is_logp = False,
                pk2d_extrap_order_lok = None,
                pk2d_extrap_order_hik = None \<rparr>))))))))"

text \<open>
  \<^verbatim>\<open>get_pt_pk2d\<close>. The result is the interpolant or the exception, the calculator object
  as the call leaves it (\<open>None\<close> when no calculator object came to exist), and the trace of
  the calls made to the collaborators.
\<close>

definition get_pt_pk2d ::
  "environment \<Rightarrow> 'c library \<Rightarrow> 'c \<Rightarrow> PTTracer pyobj \<Rightarrow> PTCalculator pyobj option \<Rightarrow>
   PTTracer pyobj option \<Rightarrow> bool \<Rightarrow> bool \<Rightarrow> real list option \<Rightarrow> int \<Rightarrow> int \<Rightarrow> bool \<Rightarrow>
   (error + Pk2D) \<times> PTCalculator option \<times> event list" where
  "get_pt_pk2d env lib cosmo tracer1 ptc tracer2 sub_lowk use_nonlin a_arr
       extrap_order_lok extrap_order_hik return_ia_bb =
     (case get_pt_pk2d_arguments env lib cosmo tracer1 ptc tracer2 a_arr of
        Inl e \<Rightarrow>
          (Inl e, (case ptc of Some (Instance c) \<Rightarrow> Some c | _ \<Rightarrow> None), [])
      | Inr (a_arr', tracer1', tracer2', ptc') \<Rightarrow>
          (case get_pt_pk2d_body lib cosmo tracer1' tracer2' sub_lowk use_nonlin a_arr'
                  extrap_order_lok extrap_order_hik return_ia_bb
                  \<lparr> calc = ptc', trace = [] \<rparr> of
             (r, w) \<Rightarrow> (r, Some (calc w), trace w)))"

section \<open>Notions used in the statements\<close>

text \<open>The value of a rank-0 array.\<close>

definition at0 :: "ndarray \<Rightarrow> real" where
  "at0 A = at2 A 0 0"

text \<open>
  One entry of the number-counts spectrum, as the formula of \<^verbatim>\<open>get_pgg\<close> reads on numbers:
  the six bias values at one redshift, the six correlators at one wavenumber and redshift,
  and the low-k term \<open>s4\<close>.
\<close>

definition pgg_entry ::
  "real \<Rightarrow> real \<Rightarrow> real \<Rightarrow> real \<Rightarrow> real \<Rightarrow> real \<Rightarrow>
   real \<Rightarrow> real \<Rightarrow> real \<Rightarrow> real \<Rightarrow> real \<Rightarrow> real \<Rightarrow> real \<Rightarrow> real" where
  "pgg_entry b11 b21 bs1 b12 b22 bs2 Pd1d1 Pd1d2 Pd2d2 Pd1s2 Pd2s2 Ps2s2 s4 =
     (b11 * b12) * Pd1d1
     + 0.5 * (b11 * b22 + b12 * b21) * Pd1d2
     + 0.25 * (b21 * b22) * (Pd2d2 - 2 * s4)
     + 0.5 * (b11 * bs2 + b12 * bs1) * Pd1s2
     + 0.25 * (b21 * bs2 + b22 * bs1) * (Pd2s2 - 4 / 3 * s4)
     + 0.25 * (bs1 * bs2) * (Ps2s2 - 8 / 9 * s4)"

text \<open>
  The grid that the specification describes for \<^verbatim>\<open>get_pgg\<close>: every correlator, the low-k
  term included, is the outer product of \<open>g4\<close> with an entry of the bundle \<open>dd\<close>, so that
  \<open>s4\<close> at wavenumber \<open>k\<close> and redshift \<open>z\<close> is \<open>g4[z] * dd[7][k]\<close>.
\<close>

definition pgg_claimed ::
  "ndarray list \<Rightarrow> nat \<Rightarrow> nat \<Rightarrow> ndarray \<Rightarrow> ndarray \<Rightarrow> ndarray \<Rightarrow> ndarray \<Rightarrow> ndarray \<Rightarrow>
   ndarray \<Rightarrow> ndarray \<Rightarrow> ndarray \<Rightarrow> bool \<Rightarrow> ndarray" where
  "pgg_claimed dd Nk Nz Pd1d1 g4 b11 b21 bs1 b12 b22 bs2 sub_lowk =
     grid Nk Nz (\<lambda>k z.
       pgg_entry (at1 b11 z) (at1 b21 z) (at1 bs1 z) (at1 b12 z) (at1 b22 z) (at1 bs2 z)
         (at2 Pd1d1 k z)
         (at1 g4 z * at1 (dd ! 2) k) (at1 g4 z * at1 (dd ! 3) k) (at1 g4 z * at1 (dd ! 4) k)
         (at1 g4 z * at1 (dd ! 5) k) (at1 g4 z * at1 (dd ! 6) k)
         (if sub_lowk then at1 g4 z * at1 (dd ! 7) k else 0))"


text \<open>
  The value that \<^verbatim>\<open>get_pgi\<close> returns; it depends neither on the trace nor on the arguments
  \<^verbatim>\<open>b2\<close> and \<^verbatim>\<open>bs\<close>.
\<close>

definition pgi_value ::
  "PTCalculator \<Rightarrow> ndarray \<Rightarrow> ndarray \<Rightarrow> ndarray \<Rightarrow> ndarray \<Rightarrow> ndarray \<Rightarrow> ndarray \<Rightarrow>
   error + ndarray" where
  "pgi_value self Pd1d1 g4 b1 c1 c2 cd = fst (get_pgi self Pd1d1 g4 b1 b1 b1 c1 c2 cd [])"

text \<open>
  The scale factors a run of \<^verbatim>\<open>get_pt_pk2d\<close> works with (lines 401 to 405): the caller's,
  or the cosmology's spline samples when their status passes \<^verbatim>\<open>check\<close>.
\<close>

definition scale_factors :: "'c library \<Rightarrow> 'c \<Rightarrow> real list option \<Rightarrow> error + real list" where
  "scale_factors lib cosmo a_arr =
     (case a_arr of
        None \<Rightarrow>
          (case get_pk_spline_a lib cosmo (get_pk_spline_na lib cosmo) 0 of
             (a_arr', status) \<Rightarrow> bindE (check lib status) (\<lambda>_. Inr a_arr'))
      | Some a_arr' \<Rightarrow> Inr a_arr')"

text \<open>
  The matter power spectrum \<^verbatim>\<open>Pd1d1\<close> of lines 446 to 451 as a value, and the calls that
  computing it makes.
\<close>

definition matter_power :: "'c library \<Rightarrow> 'c \<Rightarrow> bool \<Rightarrow> ndarray \<Rightarrow> real \<Rightarrow> ndarray" where
  "matter_power lib cosmo use_nonlin =
     (if use_nonlin then nonlin_matter_power lib cosmo else linear_matter_power lib cosmo)"

definition matter_power_grid ::
  "'c library \<Rightarrow> 'c \<Rightarrow> bool \<Rightarrow> ndarray \<Rightarrow> real list \<Rightarrow> error + ndarray" where
  "matter_power_grid lib cosmo use_nonlin k a_arr =
     bindE (np_array (map (matter_power lib cosmo use_nonlin k) a_arr)) (\<lambda>A. Inr (transpose_nd A))"

definition power_calls :: "bool \<Rightarrow> real list \<Rightarrow> event list" where
  "power_calls use_nonlin a_arr =
     map (if use_nonlin then Call_nonlin_matter_power else Call_linear_matter_power) a_arr"

section \<open>Example objects\<close>

text \<open>
  An engine that returns the input spectrum in every wavenumber-indexed slot and the number
  1 as its low-k term, a calculator as its constructor leaves it, a cosmology with a flat
  spectrum and unit growth, and tracers with constant bias functions.
\<close>

definition demo_engine :: fastpt where
  "demo_engine =
     \<lparr> one_loop_dd_bias = (\<lambda>pk pw cw. [pk, pk, pk, pk, pk, pk, pk, Scalar 1]),
       IA_ta = (\<lambda>pk pw cw. [pk, pk, pk, pk]),
       IA_tt = (\<lambda>pk pw cw. [pk, pk]),
       IA_mix = (\<lambda>pk pw cw. [pk, pk, pk, pk]) \<rparr>"

definition demo_calc :: "bool \<Rightarrow> bool \<Rightarrow> ndarray \<Rightarrow> PTCalculator" where
  "demo_calc nc ia k =
     \<lparr> with_NC = nc, with_IA = ia, P_window = None, C_window = 0.75, ks = k,
       pt = demo_engine, dd_bias = None, ia_ta = None, ia_tt = None, ia_mix = None \<rparr>"

definition cached_dd :: "ndarray list \<Rightarrow> PTCalculator" where
  "cached_dd dd = (demo_calc True False (Vec [1, 2]))\<lparr> dd_bias := Some dd \<rparr>"

definition cached_ia :: "ndarray list \<Rightarrow> ndarray list \<Rightarrow> PTCalculator" where
  "cached_ia ta mx = (demo_calc False True (Vec [1, 2]))\<lparr> ia_ta := Some ta, ia_mix := Some mx \<rparr>"

definition demo_env :: environment where
  "demo_env = \<lparr> HAVE_FASTPT = True, FASTPT = (\<lambda>k to_do lo hi n_pad. demo_engine) \<rparr>"

definition demo_lib :: "unit library" where
  "demo_lib =
     \<lparr> get_pk_spline_na = (\<lambda>c. 1),
       get_pk_spline_a = (\<lambda>c na status. ([1], status)),
       check = (\<lambda>status. if status = 0 then Inr () else Inl (CCLError status)),
       linear_matter_power = (\<lambda>c k a. map_nd (\<lambda>x. 1) k),
       nonlin_matter_power = (\<lambda>c k a. map_nd (\<lambda>x. 1) k),
       growth_factor = (\<lambda>c a. Vec (map (\<lambda>x. 1) a)) \<rparr>"

definition demo_tracer :: "string \<Rightarrow> (string \<Rightarrow> real) \<Rightarrow> PTTracer" where
  "demo_tracer ty b = \<lparr> type = ty, bias = (\<lambda>name z. map_nd (\<lambda>x. b name) z) \<rparr>"

section \<open>Array lemmas\<close>

lemma bindE_simps [simp]: "bindE (Inl e) f = Inl e" "bindE (Inr x) f = f x"
  by (simp_all add: bindE_def)

lemma at2_grid: "i < m \<Longrightarrow> j < n \<Longrightarrow> at2 (grid m n f) i j = f i j"
  by (simp add: at2_def grid_def)

lemma at2_vector: "j < n \<Longrightarrow> at2 (vector n f) 0 j = f j"
  by (simp add: at2_def vector_def)

lemma at2_Scalar: "at2 (Scalar c) 0 0 = c"
  by (simp add: at2_def)

lemma vector_cong: "(\<And>j. j < n \<Longrightarrow> f j = g j) \<Longrightarrow> vector n f = vector n g"
  by (simp add: vector_def)

lemma grid_cong: "(\<And>i j. i < m \<Longrightarrow> j < n \<Longrightarrow> f i j = g i j) \<Longrightarrow> grid m n f = grid m n g"
  by (simp add: grid_def)

lemma shape_grid [simp]: "shape (grid m n f) = [m, n]"
  by (simp add: grid_def)

text \<open>Every array of a given shape is the table of its entries.\<close>

lemma shape1_vector: "shape A = [n] \<Longrightarrow> A = vector n (at1 A)"
  by (cases A) (auto simp: vector_def at1_def at2_def intro: nth_equalityI)

lemma shape2_grid: "wf_nd A \<Longrightarrow> shape A = [m, n] \<Longrightarrow> A = grid m n (at2 A)"
  by (cases A) (auto simp: grid_def at2_def list_all_iff intro!: nth_equalityI)

lemma shape0_at0: "shape A = [] \<Longrightarrow> A = Scalar (at0 A)"
  by (cases A) (auto simp: at2_def at0_def)


lemma list8:
  "length xs = 8 \<Longrightarrow> xs = [xs ! 0, xs ! 1, xs ! 2, xs ! 3, xs ! 4, xs ! 5, xs ! 6, xs ! 7]"
  by (auto simp: numeral_eq_Suc length_Suc_conv)

lemma view_simps [simp]:
  "nrows (vector n f) = 1" "nrows (grid m n g) = m"
  "ncols (vector n f) = n" "ncols (grid m n g) = n"
  "ndim (vector n f) = 1" "ndim (grid m n g) = 2"
  by (simp_all add: vector_def grid_def)

lemma tabulate_simps [simp]:
  "tabulate 0 m n f = Scalar (f 0 0)"
  "tabulate (Suc 0) m n f = vector n (f 0)"
  "tabulate 2 m n f = grid m n f"
  by (simp_all add: tabulate_def)

lemma row_vector [simp]: "index_None_all (vector n f) = Inr (grid 1 n (\<lambda>i. f))"
  by (simp add: vector_def grid_def)

lemma col_vector [simp]: "index_all_None (vector n f) = Inr (grid n 1 (\<lambda>i j. f i))"
  by (simp add: vector_def grid_def)

subsection \<open>Broadcasting on tables\<close>

lemma pick_less_left: "bdim a b = Some m \<Longrightarrow> i < m \<Longrightarrow> pick a i < a"
  by (auto simp: bdim_def pick_def split: if_splits)

lemma pick_less_right: "bdim a b = Some m \<Longrightarrow> i < m \<Longrightarrow> pick b i < b"
  by (auto simp: bdim_def pick_def split: if_splits)

lemma pick_id: "i < d \<Longrightarrow> pick d i = i"
  by (auto simp: pick_def)

lemma bdim_simps [simp]: "bdim n n = Some n" "bdim (Suc 0) n = Some n" "bdim n (Suc 0) = Some n"
  by (auto simp: bdim_def)

lemma broadcast_grid_grid:
  assumes "bdim m1 m2 = Some m" "bdim n1 n2 = Some n"
  shows "broadcast f (grid m1 n1 g) (grid m2 n2 h) =
         Inr (grid m n (\<lambda>i j. f (g (pick m1 i) (pick n1 j)) (h (pick m2 i) (pick n2 j))))"
proof -
  have "grid m n (\<lambda>i j. f (at2 (grid m1 n1 g) (pick m1 i) (pick n1 j))
                          (at2 (grid m2 n2 h) (pick m2 i) (pick n2 j)))
      = grid m n (\<lambda>i j. f (g (pick m1 i) (pick n1 j)) (h (pick m2 i) (pick n2 j)))"
    using assms
    by (intro grid_cong) (simp add: at2_grid pick_less_left pick_less_right)
  then show ?thesis
    using assms by (simp add: broadcast_def)
qed

lemma broadcast_row_grid [simp]:
  "broadcast f (grid (Suc 0) n g) (grid m n h) = Inr (grid m n (\<lambda>i j. f (g 0 j) (h i j)))"
proof -
  have "grid m n (\<lambda>i j. f (g (pick (Suc 0) i) (pick n j)) (h (pick m i) (pick n j)))
      = grid m n (\<lambda>i j. f (g 0 j) (h i j))"
    by (intro grid_cong) (simp add: pick_id, simp add: pick_def)
  then show ?thesis
    by (simp add: broadcast_grid_grid [where m = m and n = n])
qed

lemma broadcast_grid_row [simp]:
  "broadcast f (grid m n g) (grid (Suc 0) n h) = Inr (grid m n (\<lambda>i j. f (g i j) (h 0 j)))"
proof -
  have "grid m n (\<lambda>i j. f (g (pick m i) (pick n j)) (h (pick (Suc 0) i) (pick n j)))
      = grid m n (\<lambda>i j. f (g i j) (h 0 j))"
    by (intro grid_cong) (simp add: pick_id, simp add: pick_def)
  then show ?thesis
    by (simp add: broadcast_grid_grid [where m = m and n = n])
qed

lemma broadcast_grid_same [simp]:
  "broadcast f (grid m n g) (grid m n h) = Inr (grid m n (\<lambda>i j. f (g i j) (h i j)))"
proof -
  have "grid m n (\<lambda>i j. f (g (pick m i) (pick n j)) (h (pick m i) (pick n j)))
      = grid m n (\<lambda>i j. f (g i j) (h i j))"
    by (intro grid_cong) (simp add: pick_id)
  then show ?thesis
    by (simp add: broadcast_grid_grid [where m = m and n = n])
qed

lemma broadcast_row_col [simp]:
  "broadcast f (grid (Suc 0) n g) (grid m (Suc 0) h) = Inr (grid m n (\<lambda>i j. f (g 0 j) (h i 0)))"
proof -
  have "grid m n (\<lambda>i j. f (g (pick (Suc 0) i) (pick n j)) (h (pick m i) (pick (Suc 0) j)))
      = grid m n (\<lambda>i j. f (g 0 j) (h i 0))"
    by (intro grid_cong) (simp add: pick_id, simp add: pick_def)
  then show ?thesis
    by (simp add: broadcast_grid_grid [where m = m and n = n])
qed

lemma broadcast_Scalar_grid [simp]:
  "broadcast f (Scalar c) (grid m n h) = Inr (grid m n (\<lambda>i j. f c (h i j)))"
proof -
  have "grid m n (\<lambda>i j. f (at2 (Scalar c) (pick (Suc 0) i) (pick (Suc 0) j))
                          (at2 (grid m n h) (pick m i) (pick n j)))
      = grid m n (\<lambda>i j. f c (h i j))"
    by (intro grid_cong) (simp add: pick_id at2_grid, simp add: pick_def at2_def)
  then show ?thesis
    by (simp add: broadcast_def)
qed

lemma broadcast_grid_Scalar [simp]:
  "broadcast f (grid m n g) (Scalar c) = Inr (grid m n (\<lambda>i j. f (g i j) c))"
proof -
  have "grid m n (\<lambda>i j. f (at2 (grid m n g) (pick m i) (pick n j))
                          (at2 (Scalar c) (pick (Suc 0) i) (pick (Suc 0) j)))
      = grid m n (\<lambda>i j. f (g i j) c)"
    by (intro grid_cong) (simp add: pick_id at2_grid, simp add: pick_def at2_def)
  then show ?thesis
    by (simp add: broadcast_def)
qed

lemma broadcast_Scalar_Scalar [simp]:
  "broadcast f (Scalar c) (Scalar d) = Inr (Scalar (f c d))"
  by (simp add: broadcast_def pick_def at2_def)

lemma broadcast_vector_same [simp]:
  "broadcast f (vector n g) (vector n h) = Inr (vector n (\<lambda>j. f (g j) (h j)))"
proof -
  have "vector n (\<lambda>j. f (at2 (vector n g) (pick (Suc 0) 0) (pick n j))
                        (at2 (vector n h) (pick (Suc 0) 0) (pick n j)))
      = vector n (\<lambda>j. f (g j) (h j))"
    by (intro vector_cong) (auto simp: at2_vector pick_def)
  then show ?thesis
    by (simp add: broadcast_def)
qed

lemma broadcast_Scalar_vector [simp]:
  "broadcast f (Scalar c) (vector n h) = Inr (vector n (\<lambda>j. f c (h j)))"
proof -
  have "vector n (\<lambda>j. f (at2 (Scalar c) (pick (Suc 0) 0) (pick (Suc 0) j))
                        (at2 (vector n h) (pick (Suc 0) 0) (pick n j)))
      = vector n (\<lambda>j. f c (h j))"
    by (intro vector_cong) (auto simp: at2_vector pick_def at2_Scalar)
  then show ?thesis
    by (simp add: broadcast_def)
qed

lemma broadcast_vector_Scalar [simp]:
  "broadcast f (vector n g) (Scalar c) = Inr (vector n (\<lambda>j. f (g j) c))"
proof -
  have "vector n (\<lambda>j. f (at2 (vector n g) (pick (Suc 0) 0) (pick n j))
                        (at2 (Scalar c) (pick (Suc 0) 0) (pick (Suc 0) j)))
      = vector n (\<lambda>j. f (g j) c)"
    by (intro vector_cong) (auto simp: at2_vector pick_def at2_Scalar)
  then show ?thesis
    by (simp add: broadcast_def)
qed

lemma expr_simps [simp]:
  "mulE (Inr A) (Inr B) = np_multiply A B"
  "addE (Inr A) (Inr B) = np_add A B"
  "subE (Inr A) (Inr B) = np_subtract A B"
  "rowE (Inr A) = index_None_all A"
  "colE (Inr A) = index_all_None A"
  "ok A = Inr A"
  "lit c = Inr (Scalar c)"
  by (simp_all add: mulE_def addE_def subE_def rowE_def colE_def ok_def lit_def)

lemma item_Some [simp]: "i < length xs \<Longrightarrow> item (Some xs) i = Inr (xs ! i)"
  by (simp add: item_def)

lemma unpack4_Some [simp]: "unpack4 (Some [a, b, c, d]) = Inr (a, b, c, d)"
  by (simp add: unpack4_def)

lemmas np_defs = np_multiply_def np_add_def np_subtract_def

subsection \<open>Evaluating small arrays\<close>

lemma upt_2: "[0..<2] = [0, Suc 0]"
  by (simp add: numeral_2_eq_2)

lemma upt_3: "[0..<3] = [0, Suc 0, 2]"
  by (simp add: numeral_3_eq_3 numeral_2_eq_2)

lemmas array_eval = broadcast_def bdim_def pick_def tabulate_def vector_def grid_def at2_def
  np_multiply_def np_add_def np_subtract_def square_def np_log_def

lemmas demo_defs = demo_engine_def demo_calc_def demo_env_def demo_lib_def demo_tracer_def

section \<open>The combination formulas on tables\<close>

lemma pgg_entry_split:
  "pgg_entry b11 b21 bs1 b12 b22 bs2 P P12 P22 P1s P2s Pss s4 =
   pgg_entry b11 b21 bs1 b12 b22 bs2 P P12 P22 P1s P2s Pss 0
   - (0.25 * (b21 * b22) * 2 + 0.25 * (b21 * bs2 + b22 * bs1) * (4 / 3)
      + 0.25 * (bs1 * bs2) * (8 / 9)) * s4"
  by (simp add: pgg_entry_def field_simps)

lemma pgg_entry_linear:
  "pgg_entry b11 0 0 b12 0 0 P P12 P22 P1s P2s Pss s4 = b11 * b12 * P"
  by (simp add: pgg_entry_def)

lemma get_pgg_tab:
  assumes "dd_bias self = Some [d0, d1, vector Nk d2, vector Nk d3, vector Nk d4,
                                vector Nk d5, vector Nk d6, Scalar sig4]"
  shows "get_pgg self (grid Nk Nz P) (vector Nz g) (vector Nz b11) (vector Nz b21) (vector Nz bs1)
           (vector Nz b12) (vector Nz b22) (vector Nz bs2) sub_lowk =
         Inr (grid Nk Nz (\<lambda>k z.
           b11 z * b12 z * P k z
           + 0.5 * (b11 z * b22 z + b12 z * b21 z) * (g z * d2 k)
           + 0.25 * (b21 z * b22 z) * (g z * d3 k - 2 * (if sub_lowk then g z * sig4 else 0))
           + 0.5 * (b11 z * bs2 z + b12 z * bs1 z) * (g z * d4 k)
           + 0.25 * (b21 z * bs2 z + b22 z * bs1 z)
               * (g z * d5 k - 4 / 3 * (if sub_lowk then g z * sig4 else 0))
           + 0.25 * (bs1 z * bs2 z) * (g z * d6 k - 8 / 9 * (if sub_lowk then g z * sig4 else 0))))"
  using assms by (cases sub_lowk) (simp_all add: get_pgg_def np_defs)

lemma get_pgg_shapes:
  assumes "wf_nd Pd1d1" and "shape Pd1d1 = [Nk, Nz]" and "shape g4 = [Nz]"
    and "shape b11 = [Nz]" and "shape b21 = [Nz]" and "shape bs1 = [Nz]"
    and "shape b12 = [Nz]" and "shape b22 = [Nz]" and "shape bs2 = [Nz]"
    and "dd_bias self = Some dd" and "length dd = 8"
    and "shape (dd ! 2) = [Nk]" and "shape (dd ! 3) = [Nk]" and "shape (dd ! 4) = [Nk]"
    and "shape (dd ! 5) = [Nk]" and "shape (dd ! 6) = [Nk]" and "shape (dd ! 7) = []"
  shows "get_pgg self Pd1d1 g4 b11 b21 bs1 b12 b22 bs2 sub_lowk =
         Inr (grid Nk Nz (\<lambda>k z.
           pgg_entry (at1 b11 z) (at1 b21 z) (at1 bs1 z) (at1 b12 z) (at1 b22 z) (at1 bs2 z)
             (at2 Pd1d1 k z)
             (at1 g4 z * at1 (dd ! 2) k) (at1 g4 z * at1 (dd ! 3) k) (at1 g4 z * at1 (dd ! 4) k)
             (at1 g4 z * at1 (dd ! 5) k) (at1 g4 z * at1 (dd ! 6) k)
             (if sub_lowk then at1 g4 z * at0 (dd ! 7) else 0)))"
proof -
  have dd: "dd_bias self = Some [dd ! 0, dd ! 1, vector Nk (at1 (dd ! 2)), vector Nk (at1 (dd ! 3)),
                 vector Nk (at1 (dd ! 4)), vector Nk (at1 (dd ! 5)), vector Nk (at1 (dd ! 6)),
                 Scalar (at0 (dd ! 7))]"
    using assms(10-17) list8 [of dd]
      shape1_vector [of "dd ! 2" Nk] shape1_vector [of "dd ! 3" Nk] shape1_vector [of "dd ! 4" Nk]
      shape1_vector [of "dd ! 5" Nk] shape1_vector [of "dd ! 6" Nk] shape0_at0 [of "dd ! 7"]
    by simp
  have args: "grid Nk Nz (at2 Pd1d1) = Pd1d1" "vector Nz (at1 g4) = g4"
    "vector Nz (at1 b11) = b11" "vector Nz (at1 b21) = b21" "vector Nz (at1 bs1) = bs1"
    "vector Nz (at1 b12) = b12" "vector Nz (at1 b22) = b22" "vector Nz (at1 bs2) = bs2"
    using assms(1-9) shape2_grid [of Pd1d1 Nk Nz] shape1_vector [of _ Nz] by simp_all
  show ?thesis
    using get_pgg_tab [OF dd, of Nz "at2 Pd1d1" "at1 g4" "at1 b11" "at1 b21" "at1 bs1"
        "at1 b12" "at1 b22" "at1 bs2" sub_lowk]
    by (simp add: args pgg_entry_def)
qed

lemma get_pgi_run:
  "get_pgi self Pd1d1 g4 b1 b2 bs c1 c2 cd tr =
     (pgi_value self Pd1d1 g4 b1 c1 c2 cd, tr @ [Warning pgi_warning])"
  by (simp add: get_pgi_def pgi_value_def bindS_def emit_def liftE_def)





section \<open>The phases of the orchestrator\<close>

lemmas monad_defs = bindS_def returnS_def raiseS_def liftE_def on_trace_def on_calc_def
  get_calc_def emit_def call_bias_def

lemma mapS_calls:
  "mapS (\<lambda>a s. (Inr (F (ks (calc s)) a), s\<lparr> trace := trace s @ [E a] \<rparr>)) as w
   = (Inr (map (\<lambda>a. F (ks (calc w)) a) as), w\<lparr> trace := trace w @ map E as \<rparr>)"
  by (induction as arbitrary: w) (simp_all add: bindS_def returnS_def)

lemma get_pt_pk2d_body_unfold:
  "get_pt_pk2d_body lib cosmo tracer1 tracer2 sub_lowk use_nonlin a_arr lo hi bb w =
     (case update_pk (calc w) (linear_matter_power lib cosmo (ks (calc w)) 1) of
        (Inl e, c) \<Rightarrow> (Inl e, w\<lparr> calc := c, trace := trace w @ [Call_linear_matter_power 1] \<rparr>)
      | (Inr u, c) \<Rightarrow>
          (case matter_power_grid lib cosmo use_nonlin (ks c) a_arr of
             Inl e \<Rightarrow>
               (Inl e, w\<lparr> calc := c,
                          trace := trace w @ [Call_linear_matter_power 1, Call_growth_factor]
                                     @ power_calls use_nonlin a_arr \<rparr>)
           | Inr Pd1d1 \<Rightarrow>
               (case get_pt_pk2d_dispatch tracer1 tracer2 sub_lowk bb
                       (Vec (map (\<lambda>a. 1 / a - 1) a_arr))
                       (square (square (growth_factor lib cosmo a_arr))) Pd1d1
                       (w\<lparr> calc := c,
                           trace := trace w @ [Call_linear_matter_power 1, Call_growth_factor]
                                      @ power_calls use_nonlin a_arr \<rparr>) of
                  (Inl e, w2) \<Rightarrow> (Inl e, w2)
                | (Inr p_pt, w2) \<Rightarrow>
                    (Inr \<lparr> pk2d_a_arr = a_arr, pk2d_lk_arr = np_log (ks (calc w2)),
                           pk2d_pk_arr = transpose_nd p_pt, pk2d_is_logp = False,
                           pk2d_extrap_order_lok = None, pk2d_extrap_order_hik = None \<rparr>, w2))))"
  by (cases use_nonlin)
     (simp_all add: get_pt_pk2d_body_def Let_def mapS_calls matter_power_grid_def
        matter_power_def power_calls_def monad_defs
        split: prod.splits sum.splits)

lemma get_pt_pk2d_arguments_cases:
  "get_pt_pk2d_arguments env lib cosmo (Instance t1) ptc (Some (Instance t2)) a_arr =
     bindE (scale_factors lib cosmo a_arr) (\<lambda>a.
     bindE (case ptc of None \<Rightarrow> bindE (PTCalculator_default env) (\<lambda>c. Inr (Instance c))
                      | Some p \<Rightarrow> Inr p) (\<lambda>p.
       case p of
         NotInstance \<Rightarrow> Inl (TypeError ''ptc should be of type `PTCalculator`'')
       | Instance c \<Rightarrow>
           if (type t1 = ''NC'' \<or> type t2 = ''NC'') \<and> \<not> with_NC c then Inl (ValueError need_NC)
           else if (type t1 = ''IA'' \<or> type t2 = ''IA'') \<and> \<not> with_IA c
             then Inl (ValueError need_IA)
           else Inr (a, t1, t2, c)))"
  by (cases "scale_factors lib cosmo a_arr")
     (auto simp: get_pt_pk2d_arguments_def scale_factors_def bindE_def
        split: option.splits prod.splits sum.splits pyobj.splits)

lemma get_pt_pk2d_arguments_instances:
  "get_pt_pk2d_arguments env lib cosmo (Instance t1) (Some (Instance c)) (Some (Instance t2)) a_arr =
     bindE (scale_factors lib cosmo a_arr) (\<lambda>a.
       if (type t1 = ''NC'' \<or> type t2 = ''NC'') \<and> \<not> with_NC c then Inl (ValueError need_NC)
       else if (type t1 = ''IA'' \<or> type t2 = ''IA'') \<and> \<not> with_IA c then Inl (ValueError need_IA)
       else Inr (a, t1, t2, c))"
  by (simp add: get_pt_pk2d_arguments_cases)

lemma get_pt_pk2d_arguments_auto:
  "get_pt_pk2d_arguments env lib cosmo (Instance t1) ptc None a_arr =
   get_pt_pk2d_arguments env lib cosmo (Instance t1) ptc (Some (Instance t1)) a_arr"
  by (simp add: get_pt_pk2d_arguments_def)

lemma get_pt_pk2d_arguments_swap:
  "get_pt_pk2d_arguments env lib cosmo (Instance t2) ptc (Some (Instance t1)) a_arr =
     bindE (get_pt_pk2d_arguments env lib cosmo (Instance t1) ptc (Some (Instance t2)) a_arr)
       (\<lambda>(a, x, y, c). Inr (a, y, x, c))"
  by (auto simp: get_pt_pk2d_arguments_cases bindE_def
        split: option.splits prod.splits sum.splits pyobj.splits)

lemma get_pt_pk2d_arguments_tracers:
  assumes "get_pt_pk2d_arguments env lib cosmo (Instance t1) ptc (Some (Instance t2)) a_arr
           = Inr (a, x, y, c)"
  shows "x = t1 \<and> y = t2 \<and> scale_factors lib cosmo a_arr = Inr a"
  using assms
  by (auto simp: get_pt_pk2d_arguments_cases bindE_def
        split: option.splits prod.splits sum.splits pyobj.splits if_splits)

lemma dispatch_NC_NC:
  assumes "type t1 = ''NC''" "type t2 = ''NC''"
  shows "get_pt_pk2d_dispatch t1 t2 sub_lowk bb z ga4 P w =
     (get_pgg (calc w) P ga4 (bias t1 ''b1'' z) (bias t1 ''b2'' z) (bias t1 ''b2'' z)
        (bias t2 ''b1'' z) (bias t2 ''b2'' z) (bias t2 ''b2'' z) sub_lowk,
      w\<lparr> trace := trace w @ [Call_bias 1 ''b1'', Call_bias 1 ''b2'', Call_bias 1 ''b2'',
                               Call_bias 2 ''b1'', Call_bias 2 ''b2'', Call_bias 2 ''b2''] \<rparr>)"
  using assms by (simp add: get_pt_pk2d_dispatch_def monad_defs)

lemma dispatch_NC_IA:
  assumes "type t1 = ''NC''" "type t2 = ''IA''"
  shows "get_pt_pk2d_dispatch t1 t2 sub_lowk bb z ga4 P w =
     (pgi_value (calc w) P ga4 (bias t1 ''b1'' z) (bias t2 ''c1'' z) (bias t2 ''c2'' z)
        (bias t2 ''cdelta'' z),
      w\<lparr> trace := trace w @ [Call_bias 1 ''b1'', Call_bias 1 ''b2'', Call_bias 1 ''b2'',
                               Call_bias 2 ''c1'', Call_bias 2 ''c2'', Call_bias 2 ''cdelta'',
                               Warning pgi_warning] \<rparr>)"
  using assms by (simp add: get_pt_pk2d_dispatch_def monad_defs get_pgi_run)

lemma dispatch_NC_M:
  assumes "type t1 = ''NC''" "type t2 = ''M''"
  shows "get_pt_pk2d_dispatch t1 t2 sub_lowk bb z ga4 P w =
     (get_pgm (calc w) P ga4 (bias t1 ''b1'' z) (bias t1 ''b2'' z) (bias t1 ''b2'' z),
      w\<lparr> trace := trace w @ [Call_bias 1 ''b1'', Call_bias 1 ''b2'', Call_bias 1 ''b2''] \<rparr>)"
  using assms by (simp add: get_pt_pk2d_dispatch_def monad_defs)

lemma dispatch_IA_NC:
  assumes "type t1 = ''IA''" "type t2 = ''NC''"
  shows "get_pt_pk2d_dispatch t1 t2 sub_lowk bb z ga4 P w =
     (pgi_value (calc w) P ga4 (bias t2 ''b1'' z) (bias t1 ''c1'' z) (bias t1 ''c2'' z)
        (bias t1 ''cdelta'' z),
      w\<lparr> trace := trace w @ [Call_bias 1 ''c1'', Call_bias 1 ''c2'', Call_bias 1 ''cdelta'',
                               Call_bias 2 ''b1'', Call_bias 2 ''b2'', Call_bias 2 ''b2'',
                               Warning pgi_warning] \<rparr>)"
  using assms by (simp add: get_pt_pk2d_dispatch_def monad_defs get_pgi_run)

lemma dispatch_M_M:
  assumes "type t1 = ''M''" "type t2 = ''M''"
  shows "get_pt_pk2d_dispatch t1 t2 sub_lowk bb z ga4 P w = (Inr P, w)"
  using assms by (simp add: get_pt_pk2d_dispatch_def monad_defs)

text \<open>
  No branch of the dispatch reads \<^verbatim>\<open>tracer.bs\<close>: replacing the tidal bias functions of both
  tracers changes nothing.
\<close>

lemma dispatch_ignores_bs:
  "get_pt_pk2d_dispatch (t1\<lparr> bias := (bias t1)(''bs'' := f) \<rparr>) (t2\<lparr> bias := (bias t2)(''bs'' := g) \<rparr>)
     sub_lowk bb z ga4 P
   = get_pt_pk2d_dispatch t1 t2 sub_lowk bb z ga4 P"
  by (simp add: get_pt_pk2d_dispatch_def call_bias_def not_implemented_def)

subsection \<open>Runs on the example objects\<close>

lemma demo_NC_M:
  "get_pt_pk2d demo_env demo_lib ()
     (Instance (demo_tracer ''NC'' (\<lambda>name. if name = ''bs'' then 1 else 0)))
     (Some (Instance (demo_calc True False (Vec [1, 2]))))
     (Some (Instance (demo_tracer ''M'' (\<lambda>name. 0))))
     False True (Some [1]) lo hi False
   = (Inr \<lparr> pk2d_a_arr = [1], pk2d_lk_arr = Vec [0, ln 2], pk2d_pk_arr = Mat 1 2 [[0, 0]],
            pk2d_is_logp = False, pk2d_extrap_order_lok = None, pk2d_extrap_order_hik = None \<rparr>,
      Some (cached_dd [Vec [1, 1], Vec [1, 1], Vec [1, 1], Vec [1, 1], Vec [1, 1],
                       Vec [1, 1], Vec [1, 1], Scalar 1]),
      [Call_linear_matter_power 1, Call_growth_factor, Call_nonlin_matter_power 1,
       Call_bias 1 ''b1'', Call_bias 1 ''b2'', Call_bias 1 ''b2''])"
  by (simp add: get_pt_pk2d_def get_pt_pk2d_arguments_instances scale_factors_def
        get_pt_pk2d_body_unfold update_pk_def get_dd_bias_def matter_power_grid_def
        matter_power_def power_calls_def dispatch_NC_M get_pgm_def cached_dd_def demo_defs
        array_eval upt_2)

lemma demo_M_M:
  "get_pt_pk2d demo_env demo_lib ()
     (Instance (demo_tracer ''M'' (\<lambda>name. 0)))
     (Some (Instance (demo_calc False False (Vec [1, 2]))))
     None sub_lowk True (Some [1, 0.5, 0.25]) lo hi bb
   = (Inr \<lparr> pk2d_a_arr = [1, 0.5, 0.25], pk2d_lk_arr = Vec [0, ln 2],
            pk2d_pk_arr = Mat 3 2 [[1, 1], [1, 1], [1, 1]],
            pk2d_is_logp = False, pk2d_extrap_order_lok = None, pk2d_extrap_order_hik = None \<rparr>,
      Some (demo_calc False False (Vec [1, 2])),
      [Call_linear_matter_power 1, Call_growth_factor, Call_nonlin_matter_power 1,
       Call_nonlin_matter_power 0.5, Call_nonlin_matter_power 0.25])"
  by (simp add: get_pt_pk2d_def get_pt_pk2d_arguments_auto get_pt_pk2d_arguments_instances
        scale_factors_def get_pt_pk2d_body_unfold update_pk_def matter_power_grid_def
        matter_power_def power_calls_def dispatch_M_M demo_defs array_eval upt_2 upt_3)

lemma demo_IA_NC:
  "get_pt_pk2d demo_env demo_lib ()
     (Instance (demo_tracer ''IA'' (\<lambda>name. 1)))
     (Some (Instance (demo_calc True True (Vec [1, 2]))))
     (Some (Instance (demo_tracer ''NC'' (\<lambda>name. 1))))
     False True (Some [1]) lo hi False
   = (Inr \<lparr> pk2d_a_arr = [1], pk2d_lk_arr = Vec [0, ln 2], pk2d_pk_arr = Mat 1 2 [[5, 5]],
            pk2d_is_logp = False, pk2d_extrap_order_lok = None, pk2d_extrap_order_hik = None \<rparr>,
      Some ((demo_calc True True (Vec [1, 2]))
              \<lparr> dd_bias := Some [Vec [1, 1], Vec [1, 1], Vec [1, 1], Vec [1, 1], Vec [1, 1],
                                 Vec [1, 1], Vec [1, 1], Scalar 1],
                ia_ta := Some [Vec [1, 1], Vec [1, 1], Vec [1, 1], Vec [1, 1]],
                ia_tt := Some [Vec [1, 1], Vec [1, 1]],
                ia_mix := Some [Vec [1, 1], Vec [1, 1], Vec [1, 1], Vec [1, 1]] \<rparr>),
      [Call_linear_matter_power 1, Call_growth_factor, Call_nonlin_matter_power 1,
       Call_bias 1 ''c1'', Call_bias 1 ''c2'', Call_bias 1 ''cdelta'',
       Call_bias 2 ''b1'', Call_bias 2 ''b2'', Call_bias 2 ''b2'', Warning pgi_warning])"
  by (simp add: get_pt_pk2d_def get_pt_pk2d_arguments_instances scale_factors_def
        get_pt_pk2d_body_unfold update_pk_def get_dd_bias_def get_ia_bias_def
        matter_power_grid_def matter_power_def power_calls_def dispatch_IA_NC
        pgi_value_def get_pgi_def bindS_def emit_def liftE_def demo_defs array_eval upt_2)

section \<open>The claims\<close>

subsection \<open>The tidal bias of a number-counts tracer\<close>

text \<open>
  C1. For a number-counts tracer, the tidal-bias argument handed to the combination
  formulas should be the tracer's \<open>bs\<close> function at the redshifts \<open>z = 1/a - 1\<close>. The code
  evaluates \<^verbatim>\<open>tracer.b2\<close> in its place. Here a number-counts tracer with \<open>b1 = 0\<close>,
  \<open>b2 = 0\<close> and \<open>bs = 1\<close> is correlated with matter, on a grid of two wavenumbers at one
  scale factor \<open>a = 1\<close> with unit growth and \<open>dd_bias[4] = [1, 1]\<close>. The formula of
  \<^verbatim>\<open>get_pgm\<close> with the tracer's tidal bias gives \<open>0.5 * bs * g4 * dd_bias[4] = 0.5\<close> at both
  wavenumbers; the run returns 0 at both, and its trace shows \<open>b1\<close>, \<open>b2\<close>, \<open>b2\<close>
  evaluated and \<open>bs\<close> never.
\<close>

theorem get_pt_pk2d_evaluates_b2_for_bs:
  "get_pt_pk2d demo_env demo_lib ()
     (Instance (demo_tracer ''NC'' (\<lambda>name. if name = ''bs'' then 1 else 0)))
     (Some (Instance (demo_calc True False (Vec [1, 2]))))
     (Some (Instance (demo_tracer ''M'' (\<lambda>name. 0))))
     False True (Some [1]) 1 2 False
   = (Inr \<lparr> pk2d_a_arr = [1], pk2d_lk_arr = Vec [0, ln 2], pk2d_pk_arr = Mat 1 2 [[0, 0]],
            pk2d_is_logp = False, pk2d_extrap_order_lok = None, pk2d_extrap_order_hik = None \<rparr>,
      Some (cached_dd [Vec [1, 1], Vec [1, 1], Vec [1, 1], Vec [1, 1], Vec [1, 1],
                       Vec [1, 1], Vec [1, 1], Scalar 1]),
      [Call_linear_matter_power 1, Call_growth_factor, Call_nonlin_matter_power 1,
       Call_bias 1 ''b1'', Call_bias 1 ''b2'', Call_bias 1 ''b2''])
   \<and> get_pgm (cached_dd [Vec [1, 1], Vec [1, 1], Vec [1, 1], Vec [1, 1], Vec [1, 1],
                         Vec [1, 1], Vec [1, 1], Scalar 1])
        (Mat 2 1 [[1], [1]]) (Vec [1]) (Vec [0]) (Vec [0]) (Vec [1])
      = Inr (Mat 2 1 [[1 / 2], [1 / 2]])"
  by (simp add: demo_NC_M)
     (simp add: get_pgm_def cached_dd_def demo_calc_def array_eval upt_2)

subsection \<open>The number-counts auto-spectrum\<close>

text \<open>
  C2, as amended. Let \<open>Pd1d1\<close> be a grid of shape \<open>(Nk, Nz)\<close>, let \<open>g4\<close> and the six bias
  arrays be vectors of length \<open>Nz\<close>, and let the cache \<open>dd_bias\<close> hold eight entries of
  which entries 2 to 6 are vectors of length \<open>Nk\<close> and entry 7 is a scalar. Then
  \<open>get_pgg\<close> returns the \<open>(Nk, Nz)\<close> grid whose entry at \<open>(k, z)\<close> is
  \<open>(b11*b12)*Pd1d1 + 0.5*(b11*b22 + b12*b21)*Pd1d2 + 0.25*(b21*b22)*(Pd2d2 - 2*s4)
  + 0.5*(b11*bs2 + b12*bs1)*Pd1s2 + 0.25*(b21*bs2 + b22*bs1)*(Pd2s2 - 4/3*s4)
  + 0.25*(bs1*bs2)*(Ps2s2 - 8/9*s4)\<close>, where \<open>Pd1d2\<close> to \<open>Ps2s2\<close> are the outer products of
  \<open>g4\<close> with entries 2 to 6, and \<open>s4\<close> is \<open>g4[z] * dd_bias[7]\<close>, the same at every wavenumber,
  when \<open>sub_lowk\<close> is true and 0 otherwise.
\<close>

theorem get_pgg_formula:
  assumes "wf_nd Pd1d1" and "shape Pd1d1 = [Nk, Nz]" and "shape g4 = [Nz]"
    and "shape b11 = [Nz]" and "shape b21 = [Nz]" and "shape bs1 = [Nz]"
    and "shape b12 = [Nz]" and "shape b22 = [Nz]" and "shape bs2 = [Nz]"
    and "dd_bias self = Some dd" and "length dd = 8"
    and "shape (dd ! 2) = [Nk]" and "shape (dd ! 3) = [Nk]" and "shape (dd ! 4) = [Nk]"
    and "shape (dd ! 5) = [Nk]" and "shape (dd ! 6) = [Nk]" and "shape (dd ! 7) = []"
  shows "get_pgg self Pd1d1 g4 b11 b21 bs1 b12 b22 bs2 sub_lowk =
         Inr (grid Nk Nz (\<lambda>k z.
           pgg_entry (at1 b11 z) (at1 b21 z) (at1 bs1 z) (at1 b12 z) (at1 b22 z) (at1 bs2 z)
             (at2 Pd1d1 k z)
             (at1 g4 z * at1 (dd ! 2) k) (at1 g4 z * at1 (dd ! 3) k) (at1 g4 z * at1 (dd ! 4) k)
             (at1 g4 z * at1 (dd ! 5) k) (at1 g4 z * at1 (dd ! 6) k)
             (if sub_lowk then at1 g4 z * at0 (dd ! 7) else 0)))"
  by (rule get_pgg_shapes [OF assms])

text \<open>
  The formula at two wavenumbers and one redshift, with every bias equal to 1, unit
  correlators and \<open>dd_bias[7] = 1\<close>: both entries are \<open>47/18\<close>.
\<close>

theorem get_pgg_formula_witness:
  "get_pgg (cached_dd [Vec [0, 0], Vec [0, 0], Vec [1, 1], Vec [1, 1], Vec [1, 1], Vec [1, 1],
                       Vec [1, 1], Scalar 1])
     (Mat 2 1 [[1], [1]]) (Vec [1]) (Vec [1]) (Vec [1]) (Vec [1]) (Vec [1]) (Vec [1]) (Vec [1])
     True
   = Inr (Mat 2 1 [[47 / 18], [47 / 18]])"
  using get_pgg_formula [of "Mat 2 1 [[1], [1]]" 2 1 "Vec [1]" "Vec [1]" "Vec [1]" "Vec [1]"
      "Vec [1]" "Vec [1]" "Vec [1]"
      "cached_dd [Vec [0, 0], Vec [0, 0], Vec [1, 1], Vec [1, 1], Vec [1, 1], Vec [1, 1],
                  Vec [1, 1], Scalar 1]"
      "[Vec [0, 0], Vec [0, 0], Vec [1, 1], Vec [1, 1], Vec [1, 1], Vec [1, 1],
        Vec [1, 1], Scalar 1]" True]
  by (simp add: cached_dd_def demo_calc_def grid_def upt_2 pgg_entry_def at1_def at2_def at0_def)

text \<open>
  C2 as the specification states it takes \<open>s4\<close> to be the outer product of \<open>g4\<close> with
  \<open>dd_bias[7]\<close>, as for the other correlators. The code multiplies \<open>g4\<close> and \<open>dd_bias[7]\<close>
  elementwise and broadcasts the product as a row, so a wavenumber-indexed \<open>dd_bias[7]\<close> is
  read along the redshift axis. With two wavenumbers, two redshifts, \<open>b21 = b22 = 1\<close>, all
  other biases and correlators 0, \<open>g4 = 1\<close> and \<open>dd_bias[7] = [1, 2]\<close>, the code returns rows
  \<open>[-1/2, -1]\<close> and the stated formula columns \<open>[-1/2, -1]\<close>.
\<close>

theorem get_pgg_outer_s4_counterexample:
  "get_pgg (cached_dd [Vec [0, 0], Vec [0, 0], Vec [0, 0], Vec [0, 0], Vec [0, 0], Vec [0, 0],
                       Vec [0, 0], Vec [1, 2]])
     (Mat 2 2 [[0, 0], [0, 0]]) (Vec [1, 1])
     (Vec [0, 0]) (Vec [1, 1]) (Vec [0, 0]) (Vec [0, 0]) (Vec [1, 1]) (Vec [0, 0]) True
   = Inr (Mat 2 2 [[- 1 / 2, - 1], [- 1 / 2, - 1]])
   \<and> pgg_claimed [Vec [0, 0], Vec [0, 0], Vec [0, 0], Vec [0, 0], Vec [0, 0], Vec [0, 0],
                   Vec [0, 0], Vec [1, 2]] 2 2
     (Mat 2 2 [[0, 0], [0, 0]]) (Vec [1, 1])
     (Vec [0, 0]) (Vec [1, 1]) (Vec [0, 0]) (Vec [0, 0]) (Vec [1, 1]) (Vec [0, 0]) True
   = Mat 2 2 [[- 1 / 2, - 1 / 2], [- 1, - 1]]
   \<and> get_pgg (cached_dd [Vec [0, 0], Vec [0, 0], Vec [0, 0], Vec [0, 0], Vec [0, 0], Vec [0, 0],
                       Vec [0, 0], Vec [1, 2]])
     (Mat 2 2 [[0, 0], [0, 0]]) (Vec [1, 1])
     (Vec [0, 0]) (Vec [1, 1]) (Vec [0, 0]) (Vec [0, 0]) (Vec [1, 1]) (Vec [0, 0]) True
   \<noteq> Inr (pgg_claimed [Vec [0, 0], Vec [0, 0], Vec [0, 0], Vec [0, 0], Vec [0, 0], Vec [0, 0],
                   Vec [0, 0], Vec [1, 2]] 2 2
     (Mat 2 2 [[0, 0], [0, 0]]) (Vec [1, 1])
     (Vec [0, 0]) (Vec [1, 1]) (Vec [0, 0]) (Vec [0, 0]) (Vec [1, 1]) (Vec [0, 0]) True)"
  by (simp add: get_pgg_def cached_dd_def demo_calc_def pgg_claimed_def pgg_entry_def
        array_eval at1_def upt_2)

subsection \<open>Refreshing the correlators\<close>

text \<open>
  C3. For every calculator and every spectrum whose shape differs from that of the
  calculator's wavenumber grid, \<open>update_pk\<close> raises the shape-mismatch error and the
  calculator after the call is the calculator before it: in particular the four cached
  bundles \<open>dd_bias\<close>, \<open>ia_ta\<close>, \<open>ia_tt\<close> and \<open>ia_mix\<close> are untouched.
\<close>

theorem update_pk_wrong_shape:
  assumes "shape pk \<noteq> shape (ks self)"
  shows "fst (update_pk self pk) = Inl (ValueError ''Input spectrum has wrong shape'')
       \<and> snd (update_pk self pk) = self
       \<and> dd_bias (snd (update_pk self pk)) = dd_bias self
       \<and> ia_ta (snd (update_pk self pk)) = ia_ta self
       \<and> ia_tt (snd (update_pk self pk)) = ia_tt self
       \<and> ia_mix (snd (update_pk self pk)) = ia_mix self"
  using assms by (simp add: update_pk_def)

text \<open>A spectrum of three samples against a grid of two wavenumbers, on a calculator with filled caches.\<close>

theorem update_pk_wrong_shape_witness:
  "shape (Vec [1, 1, 1]) \<noteq> shape (ks (cached_ia [Vec [3]] [Vec [4]]))
   \<and> fst (update_pk (cached_ia [Vec [3]] [Vec [4]]) (Vec [1, 1, 1]))
       = Inl (ValueError ''Input spectrum has wrong shape'')
   \<and> ia_ta (snd (update_pk (cached_ia [Vec [3]] [Vec [4]]) (Vec [1, 1, 1]))) = Some [Vec [3]]
   \<and> ia_mix (snd (update_pk (cached_ia [Vec [3]] [Vec [4]]) (Vec [1, 1, 1]))) = Some [Vec [4]]"
proof -
  have h: "shape (Vec [1, 1, 1]) \<noteq> shape (ks (cached_ia [Vec [3]] [Vec [4]]))"
    by (simp add: cached_ia_def demo_calc_def)
  show ?thesis
    using h update_pk_wrong_shape [OF h] by (simp add: cached_ia_def)
qed

subsection \<open>Matter with matter\<close>

text \<open>
  C4. When both tracers have type \<open>M\<close>, the combination step is the identity: the dispatch
  returns \<open>Pd1d1\<close> as it is and leaves the calculator and the trace alone, whatever the
  caches hold. Hence, in every successful run, the grid handed to the interpolant is the
  transpose of the matter power spectrum \<open>Pd1d1\<close> (itself the transpose of the stacked
  spectra at the scale factors), and the run's trace holds the calls for the power spectra
  and the growth factor only: no bias function is evaluated.
\<close>

theorem get_pt_pk2d_matter_matter:
  assumes "type t1 = ''M''" and "type t2 = ''M''"
    and "tracer2 = None \<and> t2 = t1 \<or> tracer2 = Some (Instance t2)"
  shows "get_pt_pk2d_dispatch t1 t2 sub_lowk bb z_arr ga4 Pd1d1 w = (Inr Pd1d1, w)
       \<and> (\<forall>pk c tr.
            get_pt_pk2d env lib cosmo (Instance t1) ptc tracer2 sub_lowk use_nonlin a_arr lo hi bb
              = (Inr pk, c, tr) \<longrightarrow>
            (\<exists>c' P. c = Some c'
               \<and> matter_power_grid lib cosmo use_nonlin (ks c') (pk2d_a_arr pk) = Inr P
               \<and> pk2d_pk_arr pk = transpose_nd P
               \<and> tr = [Call_linear_matter_power 1, Call_growth_factor]
                        @ power_calls use_nonlin (pk2d_a_arr pk)))"
proof -
  have args: "get_pt_pk2d_arguments env lib cosmo (Instance t1) ptc tracer2 a_arr
      = get_pt_pk2d_arguments env lib cosmo (Instance t1) ptc (Some (Instance t2)) a_arr"
    using assms(3) by (auto simp: get_pt_pk2d_arguments_auto)
  have "\<exists>c' P. c = Some c'
               \<and> matter_power_grid lib cosmo use_nonlin (ks c') (pk2d_a_arr pk) = Inr P
               \<and> pk2d_pk_arr pk = transpose_nd P
               \<and> tr = [Call_linear_matter_power 1, Call_growth_factor]
                        @ power_calls use_nonlin (pk2d_a_arr pk)"
    if run: "get_pt_pk2d env lib cosmo (Instance t1) ptc tracer2 sub_lowk use_nonlin a_arr lo hi bb
              = (Inr pk, c, tr)" for pk c tr
  proof (cases "get_pt_pk2d_arguments env lib cosmo (Instance t1) ptc (Some (Instance t2)) a_arr")
    case (Inl e)
    with run show ?thesis by (simp add: get_pt_pk2d_def args)
  next
    case (Inr r)
    then obtain a c0 where r: "r = (a, t1, t2, c0)"
      using get_pt_pk2d_arguments_tracers [of env lib cosmo t1 ptc t2 a_arr] by (cases r) auto
    show ?thesis
      using run assms(1,2)
      by (auto simp: get_pt_pk2d_def args Inr r get_pt_pk2d_body_unfold dispatch_M_M
            split: prod.splits sum.splits)
  qed
  then show ?thesis
    using assms(1,2) by (simp add: dispatch_M_M)
qed

text \<open>
  The matter auto-spectrum on two wavenumbers and three scale factors: the run succeeds,
  and the grid of shape \<open>(3, 2)\<close> it hands over is the transpose of \<open>Pd1d1\<close>.
\<close>

theorem get_pt_pk2d_matter_matter_witness:
  "type (demo_tracer ''M'' (\<lambda>name. 0)) = ''M''
   \<and> fst (get_pt_pk2d demo_env demo_lib () (Instance (demo_tracer ''M'' (\<lambda>name. 0)))
            (Some (Instance (demo_calc False False (Vec [1, 2])))) None
            False True (Some [1, 0.5, 0.25]) 1 2 False)
     = Inr \<lparr> pk2d_a_arr = [1, 0.5, 0.25], pk2d_lk_arr = Vec [0, ln 2],
             pk2d_pk_arr = Mat 3 2 [[1, 1], [1, 1], [1, 1]],
             pk2d_is_logp = False, pk2d_extrap_order_lok = None, pk2d_extrap_order_hik = None \<rparr>
   \<and> (\<exists>P. matter_power_grid demo_lib () True (Vec [1, 2]) [1, 0.5, 0.25] = Inr P
          \<and> Mat 3 2 [[1, 1], [1, 1], [1, 1]] = transpose_nd P)"
proof -
  have h: "type (demo_tracer ''M'' (\<lambda>name. 0)) = ''M''"
    by (simp add: demo_tracer_def)
  show ?thesis
    using h get_pt_pk2d_matter_matter [OF h h, where ?tracer2.0 = None and env = demo_env
        and lib = demo_lib and cosmo = "()"
        and ptc = "Some (Instance (demo_calc False False (Vec [1, 2])))" and sub_lowk = False
        and use_nonlin = True and a_arr = "Some [1, 0.5, 0.25]" and lo = 1 and hi = 2
        and bb = False and z_arr = "Vec []" and ?ga4.0 = "Vec []" and ?Pd1d1.0 = "Vec []"
        and w = "\<lparr> calc = demo_calc False False (Vec [1, 2]), trace = [] \<rparr>"]
      demo_M_M [of False 1 2 False]
    by (auto simp: demo_calc_def)
qed

subsection \<open>Number counts with intrinsic alignments, in either order\<close>

text \<open>
  C5. For every cosmology, every calculator argument, every tracer \<open>tg\<close> of type \<open>NC\<close> and
  every tracer \<open>ti\<close> of type \<open>IA\<close>, with all other arguments the same, the call with
  \<open>(tg, ti)\<close> and the call with \<open>(ti, tg)\<close> return the same interpolant, hence the same
  power-spectrum grid, or raise the same exception.
\<close>

theorem get_pt_pk2d_NC_IA_swap:
  assumes "type tg = ''NC''" and "type ti = ''IA''"
  shows "fst (get_pt_pk2d env lib cosmo (Instance tg) ptc (Some (Instance ti))
                sub_lowk use_nonlin a_arr lo hi bb)
       = fst (get_pt_pk2d env lib cosmo (Instance ti) ptc (Some (Instance tg))
                sub_lowk use_nonlin a_arr lo hi bb)"
proof (cases "get_pt_pk2d_arguments env lib cosmo (Instance tg) ptc (Some (Instance ti)) a_arr")
  case (Inl e)
  then show ?thesis
    by (simp add: get_pt_pk2d_def get_pt_pk2d_arguments_swap [of env lib cosmo ti ptc tg])
next
  case (Inr r)
  then obtain a c where r: "r = (a, tg, ti, c)"
    using get_pt_pk2d_arguments_tracers [of env lib cosmo tg ptc ti a_arr] by (cases r) auto
  show ?thesis
    using assms
    by (simp add: get_pt_pk2d_def get_pt_pk2d_arguments_swap [of env lib cosmo ti ptc tg] Inr r
          get_pt_pk2d_body_unfold dispatch_NC_IA dispatch_IA_NC
          split: prod.splits sum.splits)
qed

text \<open>
  Tracers with every bias equal to 1 on two wavenumbers and one scale factor: both orders
  return the grid with entries \<open>1 * (1 + 2 + 2) = 5\<close>.
\<close>

theorem get_pt_pk2d_NC_IA_swap_witness:
  "type (demo_tracer ''NC'' (\<lambda>name. 1)) = ''NC'' \<and> type (demo_tracer ''IA'' (\<lambda>name. 1)) = ''IA''
   \<and> fst (get_pt_pk2d demo_env demo_lib () (Instance (demo_tracer ''NC'' (\<lambda>name. 1)))
            (Some (Instance (demo_calc True True (Vec [1, 2]))))
            (Some (Instance (demo_tracer ''IA'' (\<lambda>name. 1))))
            False True (Some [1]) 1 2 False)
     = Inr \<lparr> pk2d_a_arr = [1], pk2d_lk_arr = Vec [0, ln 2], pk2d_pk_arr = Mat 1 2 [[5, 5]],
             pk2d_is_logp = False, pk2d_extrap_order_lok = None, pk2d_extrap_order_hik = None \<rparr>"
proof -
  have g: "type (demo_tracer ''NC'' (\<lambda>name. 1)) = ''NC''"
    and i: "type (demo_tracer ''IA'' (\<lambda>name. 1)) = ''IA''"
    by (simp_all add: demo_tracer_def)
  show ?thesis
    using g i get_pt_pk2d_NC_IA_swap [OF g i, of demo_env demo_lib "()"
        "Some (Instance (demo_calc True True (Vec [1, 2])))" False True "Some [1]" 1 2 False]
      demo_IA_NC [of 1 2]
    by simp
qed

subsection \<open>The low-k correction and the linear limit of the auto-spectrum\<close>

text \<open>
  C6. On a valid input (shapes as in C2, the eighth entry of \<open>dd_bias\<close> the scalar the
  engine returns), \<open>get_pgg\<close> succeeds for both values of \<open>sub_lowk\<close>, and the two grids
  differ, entry by entry, by the terms proportional to \<open>s4 = g4 * dd_bias[7]\<close> only. When
  the second-order and tidal biases of both tracers vanish, \<open>get_pgg\<close> returns
  \<open>(b11*b12)*Pd1d1\<close> for either value of \<open>sub_lowk\<close>; in particular \<open>b1 = 2\<close> for both
  tracers with \<open>g4 = 1\<close> and \<open>Pd1d1 = 1\<close> gives the constant grid 4.
\<close>

theorem get_pgg_low_k_and_linear_limit:
  assumes "wf_nd Pd1d1" and "shape Pd1d1 = [Nk, Nz]" and "shape g4 = [Nz]"
    and "shape b11 = [Nz]" and "shape b21 = [Nz]" and "shape bs1 = [Nz]"
    and "shape b12 = [Nz]" and "shape b22 = [Nz]" and "shape bs2 = [Nz]"
    and "dd_bias self = Some dd" and "length dd = 8"
    and "shape (dd ! 2) = [Nk]" and "shape (dd ! 3) = [Nk]" and "shape (dd ! 4) = [Nk]"
    and "shape (dd ! 5) = [Nk]" and "shape (dd ! 6) = [Nk]" and "shape (dd ! 7) = []"
  shows "(\<exists>T F. get_pgg self Pd1d1 g4 b11 b21 bs1 b12 b22 bs2 True = Inr T
              \<and> get_pgg self Pd1d1 g4 b11 b21 bs1 b12 b22 bs2 False = Inr F
              \<and> shape T = [Nk, Nz] \<and> shape F = [Nk, Nz]
              \<and> (\<forall>k<Nk. \<forall>z<Nz. at2 T k z = at2 F k z
                    - (0.25 * (at1 b21 z * at1 b22 z) * 2
                       + 0.25 * (at1 b21 z * at1 bs2 z + at1 b22 z * at1 bs1 z) * (4 / 3)
                       + 0.25 * (at1 bs1 z * at1 bs2 z) * (8 / 9))
                      * (at1 g4 z * at0 (dd ! 7))))
       \<and> ((\<forall>z<Nz. at1 b21 z = 0 \<and> at1 bs1 z = 0 \<and> at1 b22 z = 0 \<and> at1 bs2 z = 0) \<longrightarrow>
            get_pgg self Pd1d1 g4 b11 b21 bs1 b12 b22 bs2 sub_lowk =
              Inr (grid Nk Nz (\<lambda>k z. at1 b11 z * at1 b12 z * at2 Pd1d1 k z)))
       \<and> ((\<forall>z<Nz. at1 b11 z = 2 \<and> at1 b12 z = 2 \<and> at1 g4 z = 1
                   \<and> at1 b21 z = 0 \<and> at1 bs1 z = 0 \<and> at1 b22 z = 0 \<and> at1 bs2 z = 0)
            \<and> (\<forall>k<Nk. \<forall>z<Nz. at2 Pd1d1 k z = 1) \<longrightarrow>
            get_pgg self Pd1d1 g4 b11 b21 bs1 b12 b22 bs2 sub_lowk = Inr (grid Nk Nz (\<lambda>k z. 4)))"
proof -
  note pgg = get_pgg_shapes [OF assms]
  let ?E = "\<lambda>s4 k z.
             pgg_entry (at1 b11 z) (at1 b21 z) (at1 bs1 z) (at1 b12 z) (at1 b22 z) (at1 bs2 z)
               (at2 Pd1d1 k z)
               (at1 g4 z * at1 (dd ! 2) k) (at1 g4 z * at1 (dd ! 3) k) (at1 g4 z * at1 (dd ! 4) k)
               (at1 g4 z * at1 (dd ! 5) k) (at1 g4 z * at1 (dd ! 6) k) (s4 z)"
  let ?c = "\<lambda>z. 0.25 * (at1 b21 z * at1 b22 z) * 2
             + 0.25 * (at1 b21 z * at1 bs2 z + at1 b22 z * at1 bs1 z) * (4 / 3)
             + 0.25 * (at1 bs1 z * at1 bs2 z) * (8 / 9)"
  have T: "get_pgg self Pd1d1 g4 b11 b21 bs1 b12 b22 bs2 True
             = Inr (grid Nk Nz (?E (\<lambda>z. at1 g4 z * at0 (dd ! 7))))"
    and F: "get_pgg self Pd1d1 g4 b11 b21 bs1 b12 b22 bs2 False = Inr (grid Nk Nz (?E (\<lambda>z. 0)))"
    using pgg [of True] pgg [of False] by simp_all
  have diff: "at2 (grid Nk Nz (?E (\<lambda>z. at1 g4 z * at0 (dd ! 7)))) k z
      = at2 (grid Nk Nz (?E (\<lambda>z. 0))) k z - ?c z * (at1 g4 z * at0 (dd ! 7))"
    if "k < Nk" "z < Nz" for k z
  proof -
    have "at2 (grid Nk Nz (?E (\<lambda>z. at1 g4 z * at0 (dd ! 7)))) k z
        = ?E (\<lambda>z. at1 g4 z * at0 (dd ! 7)) k z"
      using that by (rule at2_grid)
    also have "\<dots> = ?E (\<lambda>z. 0) k z - ?c z * (at1 g4 z * at0 (dd ! 7))"
      by (rule pgg_entry_split)
    also have "?E (\<lambda>z. 0) k z = at2 (grid Nk Nz (?E (\<lambda>z. 0))) k z"
      using that by (rule at2_grid [symmetric])
    finally show ?thesis .
  qed
  have one: "\<exists>T F. get_pgg self Pd1d1 g4 b11 b21 bs1 b12 b22 bs2 True = Inr T
              \<and> get_pgg self Pd1d1 g4 b11 b21 bs1 b12 b22 bs2 False = Inr F
              \<and> shape T = [Nk, Nz] \<and> shape F = [Nk, Nz]
              \<and> (\<forall>k<Nk. \<forall>z<Nz. at2 T k z = at2 F k z
                    - (0.25 * (at1 b21 z * at1 b22 z) * 2
                       + 0.25 * (at1 b21 z * at1 bs2 z + at1 b22 z * at1 bs1 z) * (4 / 3)
                       + 0.25 * (at1 bs1 z * at1 bs2 z) * (8 / 9))
                      * (at1 g4 z * at0 (dd ! 7)))"
  proof (intro exI conjI)
    show "get_pgg self Pd1d1 g4 b11 b21 bs1 b12 b22 bs2 True
            = Inr (grid Nk Nz (?E (\<lambda>z. at1 g4 z * at0 (dd ! 7))))"
      by (rule T)
    show "get_pgg self Pd1d1 g4 b11 b21 bs1 b12 b22 bs2 False = Inr (grid Nk Nz (?E (\<lambda>z. 0)))"
      by (rule F)
    show "\<forall>k<Nk. \<forall>z<Nz. at2 (grid Nk Nz (?E (\<lambda>z. at1 g4 z * at0 (dd ! 7)))) k z
            = at2 (grid Nk Nz (?E (\<lambda>z. 0))) k z - ?c z * (at1 g4 z * at0 (dd ! 7))"
      using diff by blast
  qed (rule shape_grid)+
  have two: "get_pgg self Pd1d1 g4 b11 b21 bs1 b12 b22 bs2 sub_lowk =
              Inr (grid Nk Nz (\<lambda>k z. at1 b11 z * at1 b12 z * at2 Pd1d1 k z))"
    if "\<forall>z<Nz. at1 b21 z = 0 \<and> at1 bs1 z = 0 \<and> at1 b22 z = 0 \<and> at1 bs2 z = 0"
    unfolding pgg [of sub_lowk] using that
    by (auto intro!: grid_cong simp: pgg_entry_linear)
  have three: "get_pgg self Pd1d1 g4 b11 b21 bs1 b12 b22 bs2 sub_lowk = Inr (grid Nk Nz (\<lambda>k z. 4))"
    if "(\<forall>z<Nz. at1 b11 z = 2 \<and> at1 b12 z = 2 \<and> at1 g4 z = 1
                   \<and> at1 b21 z = 0 \<and> at1 bs1 z = 0 \<and> at1 b22 z = 0 \<and> at1 bs2 z = 0)
            \<and> (\<forall>k<Nk. \<forall>z<Nz. at2 Pd1d1 k z = 1)"
    unfolding pgg [of sub_lowk] using that
    by (auto intro!: grid_cong simp: pgg_entry_linear)
  show ?thesis
    using one two three by blast
qed

text \<open>
  Two wavenumbers, one redshift, \<open>b1 = 2\<close> for both tracers, all other biases 0,
  \<open>g4 = 1\<close> and \<open>Pd1d1 = 1\<close>: the grid is 4 with the low-k subtraction and without it.
\<close>

theorem get_pgg_low_k_and_linear_limit_witness:
  "get_pgg (cached_dd [Vec [0, 0], Vec [0, 0], Vec [1, 1], Vec [1, 1], Vec [1, 1], Vec [1, 1],
                       Vec [1, 1], Scalar 1])
     (Mat 2 1 [[1], [1]]) (Vec [1]) (Vec [2]) (Vec [0]) (Vec [0]) (Vec [2]) (Vec [0]) (Vec [0])
     True
   = Inr (Mat 2 1 [[4], [4]])
   \<and> get_pgg (cached_dd [Vec [0, 0], Vec [0, 0], Vec [1, 1], Vec [1, 1], Vec [1, 1], Vec [1, 1],
                       Vec [1, 1], Scalar 1])
     (Mat 2 1 [[1], [1]]) (Vec [1]) (Vec [2]) (Vec [0]) (Vec [0]) (Vec [2]) (Vec [0]) (Vec [0])
     False
   = Inr (Mat 2 1 [[4], [4]])"
proof -
  have pgg: "get_pgg (cached_dd [Vec [0, 0], Vec [0, 0], Vec [1, 1], Vec [1, 1], Vec [1, 1],
                                 Vec [1, 1], Vec [1, 1], Scalar 1])
     (Mat 2 1 [[1], [1]]) (Vec [1]) (Vec [2]) (Vec [0]) (Vec [0]) (Vec [2]) (Vec [0]) (Vec [0])
     sub_lowk
   = Inr (Mat 2 1 [[4], [4]])" for sub_lowk
    using get_pgg_low_k_and_linear_limit [of "Mat 2 1 [[1], [1]]" 2 1 "Vec [1]" "Vec [2]"
      "Vec [0]" "Vec [0]" "Vec [2]" "Vec [0]" "Vec [0]"
      "cached_dd [Vec [0, 0], Vec [0, 0], Vec [1, 1], Vec [1, 1], Vec [1, 1], Vec [1, 1],
                  Vec [1, 1], Scalar 1]"
      "[Vec [0, 0], Vec [0, 0], Vec [1, 1], Vec [1, 1], Vec [1, 1], Vec [1, 1],
        Vec [1, 1], Scalar 1]" sub_lowk]
    by (simp add: cached_dd_def demo_calc_def grid_def upt_2 at1_def at2_def less_2_cases_iff)
  show ?thesis
    using pgg [of True] pgg [of False] by simp
qed

subsection \<open>The flags of the calculator\<close>

text \<open>
  C7. Let both tracers be tracer objects and the calculator a calculator object. If a tracer
  has type \<open>NC\<close> while \<open>with_NC\<close> is false, or type \<open>IA\<close> while \<open>with_IA\<close> is false, the call
  raises, the calculator is as it was (its caches are not refreshed) and the trace is
  empty: no power spectrum, growth factor or bias function is evaluated. The exception is
  the value error of the flag test whenever the scale factors are at hand (they are passed
  in, or the look-up of the cosmology's samples that precedes the test does not raise).
\<close>

theorem get_pt_pk2d_flag_mismatch:
  assumes "tracer2 = None \<and> t2 = t1 \<or> tracer2 = Some (Instance t2)"
    and "(type t1 = ''NC'' \<or> type t2 = ''NC'') \<and> \<not> with_NC c
       \<or> (type t1 = ''IA'' \<or> type t2 = ''IA'') \<and> \<not> with_IA c"
  shows "isl (fst (get_pt_pk2d env lib cosmo (Instance t1) (Some (Instance c)) tracer2
                     sub_lowk use_nonlin a_arr lo hi bb))
       \<and> snd (get_pt_pk2d env lib cosmo (Instance t1) (Some (Instance c)) tracer2
                     sub_lowk use_nonlin a_arr lo hi bb) = (Some c, [])
       \<and> (\<forall>a. scale_factors lib cosmo a_arr = Inr a \<longrightarrow>
            fst (get_pt_pk2d env lib cosmo (Instance t1) (Some (Instance c)) tracer2
                     sub_lowk use_nonlin a_arr lo hi bb)
            = Inl (ValueError (if (type t1 = ''NC'' \<or> type t2 = ''NC'') \<and> \<not> with_NC c
                               then need_NC else need_IA)))"
proof -
  have args: "get_pt_pk2d_arguments env lib cosmo (Instance t1) (Some (Instance c)) tracer2 a_arr
      = get_pt_pk2d_arguments env lib cosmo (Instance t1) (Some (Instance c)) (Some (Instance t2)) a_arr"
    using assms(1) by (auto simp: get_pt_pk2d_arguments_auto)
  show ?thesis
    using assms(2)
    by (cases "scale_factors lib cosmo a_arr")
       (auto simp: get_pt_pk2d_def args get_pt_pk2d_arguments_instances)
qed

text \<open>
  An intrinsic-alignment tracer with a number-counts tracer on a calculator built with
  \<open>with_IA = False\<close>, the scale factors left to the cosmology.
\<close>

theorem get_pt_pk2d_flag_mismatch_witness:
  "get_pt_pk2d demo_env demo_lib () (Instance (demo_tracer ''IA'' (\<lambda>name. 1)))
     (Some (Instance (demo_calc True False (Vec [1, 2]))))
     (Some (Instance (demo_tracer ''NC'' (\<lambda>name. 1))))
     False True None 1 2 False
   = (Inl (ValueError need_IA), Some (demo_calc True False (Vec [1, 2])), [])"
proof -
  have flags: "(type (demo_tracer ''IA'' (\<lambda>name. 1)) = ''NC''
                 \<or> type (demo_tracer ''NC'' (\<lambda>name. 1)) = ''NC'')
                \<and> \<not> with_NC (demo_calc True False (Vec [1, 2]))
             \<or> (type (demo_tracer ''IA'' (\<lambda>name. 1)) = ''IA''
                 \<or> type (demo_tracer ''NC'' (\<lambda>name. 1)) = ''IA'')
                \<and> \<not> with_IA (demo_calc True False (Vec [1, 2]))"
    by (simp add: demo_tracer_def demo_calc_def)
  have a: "scale_factors demo_lib () None = Inr [1]"
    by (simp add: scale_factors_def demo_lib_def)
  show ?thesis
    using a get_pt_pk2d_flag_mismatch [OF _ flags,
        where ?tracer2.0 = "Some (Instance (demo_tracer ''NC'' (\<lambda>name. 1)))"
        and env = demo_env and lib = demo_lib and cosmo = "()" and sub_lowk = False
        and use_nonlin = True and a_arr = None and lo = 1 and hi = 2 and bb = False]
    by (simp add: prod_eq_iff demo_tracer_def demo_calc_def)
qed

subsection \<open>The interpolant\<close>

text \<open>
  C8. A successful run should hand the interpolant a grid of shape \<open>(N_a, N_k)\<close>, the axis
  \<open>log(ks)\<close>, linear storage and the caller's extrapolation orders. The call of
  \<^verbatim>\<open>Pk2D\<close> passes neither \<^verbatim>\<open>extrap_order_lok\<close> nor \<^verbatim>\<open>extrap_order_hik\<close>. Here the
  matter auto-spectrum is asked for on two wavenumbers and three scale factors with both
  orders 0: the grid has shape \<open>(3, 2)\<close>, the axis is \<open>log(ks)\<close>, the storage is linear,
  and no extrapolation order reaches the interpolant.
\<close>

theorem get_pt_pk2d_drops_extrap_orders:
  "get_pt_pk2d demo_env demo_lib ()
     (Instance (demo_tracer ''M'' (\<lambda>name. 0)))
     (Some (Instance (demo_calc False False (Vec [1, 2]))))
     None False True (Some [1, 0.5, 0.25]) 0 0 False
   = (Inr \<lparr> pk2d_a_arr = [1, 0.5, 0.25], pk2d_lk_arr = Vec [0, ln 2],
            pk2d_pk_arr = Mat 3 2 [[1, 1], [1, 1], [1, 1]],
            pk2d_is_logp = False, pk2d_extrap_order_lok = None, pk2d_extrap_order_hik = None \<rparr>,
      Some (demo_calc False False (Vec [1, 2])),
      [Call_linear_matter_power 1, Call_growth_factor, Call_nonlin_matter_power 1,
       Call_nonlin_matter_power 0.5, Call_nonlin_matter_power 0.25])"
  by (rule demo_M_M)

subsection \<open>Number counts with intrinsic alignments\<close>




subsection \<open>The shape test of the refresh\<close>

text \<open>
  C10. \<open>update_pk\<close> tests the shape of the spectrum whatever the flags are: a spectrum whose
  shape differs from that of the wavenumber grid raises the shape-mismatch error, also on
  a calculator with both flags false. On a calculator with both flags false, a spectrum of
  the right shape leaves the calculator, and with it the four cached bundles, as it was.
\<close>

theorem update_pk_shape_test_unconditional:
  "(shape pk \<noteq> shape (ks self) \<longrightarrow>
      update_pk self pk = (Inl (ValueError ''Input spectrum has wrong shape''), self))
   \<and> (\<not> with_NC self \<and> \<not> with_IA self \<and> shape pk = shape (ks self) \<longrightarrow>
      update_pk self pk = (Inr (), self))"
  by (simp add: update_pk_def)

text \<open>A calculator with both flags false, with a spectrum of three samples and one of two.\<close>

theorem update_pk_shape_test_unconditional_witness:
  "\<not> with_NC (demo_calc False False (Vec [1, 2])) \<and> \<not> with_IA (demo_calc False False (Vec [1, 2]))
   \<and> update_pk (demo_calc False False (Vec [1, 2])) (Vec [1, 1, 1])
       = (Inl (ValueError ''Input spectrum has wrong shape''), demo_calc False False (Vec [1, 2]))
   \<and> update_pk (demo_calc False False (Vec [1, 2])) (Vec [1, 1])
       = (Inr (), demo_calc False False (Vec [1, 2]))"
  using update_pk_shape_test_unconditional [of "Vec [1, 1, 1]" "demo_calc False False (Vec [1, 2])"]
    update_pk_shape_test_unconditional [of "Vec [1, 1]" "demo_calc False False (Vec [1, 2])"]
  by (simp add: demo_calc_def)

end
